theory Spec2Isabelle
  imports Main "HOL-Library.Sublist"
begin

chapter \<open>The notification card of the sdc_shoelace theme\<close>

text \<open>
  A model of the framework-agnostic notification card script (mounting, dismissal,
  entrance animation, the programmatic \<^verbatim>\<open>show\<close>) and of its Drupal wrapper (the bridge that
  turns status messages into notifications). The DOM is a list of elements with the
  fields the script reads and writes; timers, dispatched events and the usage log are part
  of the page state; every operation takes the page and returns the page it leaves.
\<close>

section \<open>Strings\<close>

text \<open>
  JavaScript strings are modelled as \<^typ>\<open>string\<close>; a character stands for one code
  unit below 256, so U+00A0 is \<^term>\<open>CHR 0xA0\<close>.

  \<open>str_includes s sub\<close> is \<^verbatim>\<open>s.includes(sub)\<close>: \<open>sub\<close> occurs somewhere in \<open>s\<close>.
\<close>

fun str_includes :: "string \<Rightarrow> string \<Rightarrow> bool" where
  "str_includes [] sub = (sub = [])"
| "str_includes (c # cs) sub = (prefix sub (c # cs) \<or> str_includes cs sub)"

text \<open>
  \<open>escapeHtml\<close> of the source writes the text into a fresh \<^verbatim>\<open>div\<close> as \<^verbatim>\<open>textContent\<close>
  and reads \<^verbatim>\<open>innerHTML\<close> back. The browser serialises a text node by replacing
  \<^verbatim>\<open>&\<close>, U+00A0, \<^verbatim>\<open><\<close> and \<^verbatim>\<open>>\<close> and nothing else (quotes stay as they are).
\<close>

fun escapeHtml :: "string \<Rightarrow> string" where
  "escapeHtml [] = []"
| "escapeHtml (c # cs) =
     (if c = CHR ''&'' then ''&amp;'' @ escapeHtml cs
      else if c = CHR 0xA0 then ''&nbsp;'' @ escapeHtml cs
      else if c = CHR ''<'' then ''&lt;'' @ escapeHtml cs
      else if c = CHR ''>'' then ''&gt;'' @ escapeHtml cs
      else c # escapeHtml cs)"

text \<open>
  The reading side of the browser: what the HTML parser makes of text content between
  two tags, for text in which every ampersand starts one of the four character
  references above (as in every text that \<open>escapeHtml\<close> returns). The parser first
  normalises newlines in its input (CR LF and a lone CR become LF); then it reads the
  characters, replacing each reference by its character and ignoring U+0000.
\<close>

fun normalizeNewlines :: "string \<Rightarrow> string" where
  "normalizeNewlines [] = []"
| "normalizeNewlines [c] = (if c = CHR 0x0D then [CHR 0x0A] else [c])"
| "normalizeNewlines (c # d # cs) =
     (if c = CHR 0x0D \<and> d = CHR 0x0A then CHR 0x0A # normalizeNewlines cs
      else if c = CHR 0x0D then CHR 0x0A # normalizeNewlines (d # cs)
      else c # normalizeNewlines (d # cs))"

fun readCharacters :: "string \<Rightarrow> string" where
  "readCharacters [] = []"
| "readCharacters (c # cs) =
     (if prefix ''&amp;'' (c # cs) then CHR ''&'' # readCharacters (drop 4 cs)
      else if prefix ''&nbsp;'' (c # cs) then CHR 0xA0 # readCharacters (drop 5 cs)
      else if prefix ''&lt;'' (c # cs) then CHR ''<'' # readCharacters (drop 3 cs)
      else if prefix ''&gt;'' (c # cs) then CHR ''>'' # readCharacters (drop 3 cs)
      else if c = CHR 0x00 then readCharacters cs
      else c # readCharacters cs)"

definition decodeText :: "string \<Rightarrow> string" where
  "decodeText s = readCharacters (normalizeNewlines s)"

text \<open>
  What is left of a text that went through the parser without holding any markup:
  its newlines normalised and its U+0000 characters gone.
\<close>

definition parserText :: "string \<Rightarrow> string" where
  "parserText t = filter (\<lambda>c. c \<noteq> CHR 0x00) (normalizeNewlines t)"

text \<open>The tokens of a \<^verbatim>\<open>class\<close> attribute: maximal runs without ASCII whitespace.\<close>

definition isSpace :: "char \<Rightarrow> bool" where
  "isSpace c = (c = CHR '' '' \<or> c = CHR 0x09 \<or> c = CHR 0x0A \<or> c = CHR 0x0C \<or> c = CHR 0x0D)"

fun tokens_acc :: "string \<Rightarrow> string \<Rightarrow> string list" where
  "tokens_acc cur [] = (if cur = [] then [] else [cur])"
| "tokens_acc cur (c # cs) =
     (if isSpace c then (if cur = [] then tokens_acc [] cs else cur # tokens_acc [] cs)
      else tokens_acc (cur @ [c]) cs)"

definition classTokens :: "string \<Rightarrow> string list" where
  "classTokens s = tokens_acc [] s"

section \<open>Configuration of a notification\<close>

text \<open>
  The argument of \<^verbatim>\<open>show\<close>. A field is \<open>None\<close> when the property is absent from the
  object; the whole argument is \<open>None\<close> when \<^verbatim>\<open>show()\<close> is called without one.
\<close>

record options =
  opt_variant :: "string option"
  opt_title :: "string option"
  opt_message :: "string option"
  opt_dismissible :: "bool option"
  opt_duration :: "int option"
  opt_icon :: "string option"

text \<open>
  A property read \<^verbatim>\<open>icons[variant]\<close> on an object literal also finds what the literal
  inherits from \<^verbatim>\<open>Object.prototype\<close>; those members are functions (or, for
  \<^verbatim>\<open>__proto__\<close>, the prototype object), all truthy, and none of them is a string.
\<close>

datatype icon_value = IconName string | InheritedMember string

definition objectPrototypeKeys :: "string list" where
  "objectPrototypeKeys =
     [''constructor'', ''hasOwnProperty'', ''isPrototypeOf'', ''propertyIsEnumerable'',
      ''toLocaleString'', ''toString'', ''valueOf'', ''__proto__'',
      ''__defineGetter__'', ''__defineSetter__'', ''__lookupGetter__'', ''__lookupSetter__'']"

definition icons :: "(string \<times> string) list" where
  "icons =
     [(''info'', ''info-circle''),
      (''success'', ''check-circle''),
      (''warning'', ''exclamation-triangle''),
      (''danger'', ''exclamation-octagon'')]"

text \<open>
  \<^verbatim>\<open>return icons[variant] || icons.info\<close>. The argument is \<open>None\<close> for \<^verbatim>\<open>undefined\<close>,
  which reads the key \<^verbatim>\<open>"undefined"\<close> and finds nothing.
\<close>

definition getDefaultIcon :: "string option \<Rightarrow> icon_value" where
  "getDefaultIcon variant =
     (case variant of
        None \<Rightarrow> IconName ''info-circle''
      | Some k \<Rightarrow>
          (case map_of icons k of
             Some i \<Rightarrow> IconName i
           | None \<Rightarrow>
               if k \<in> set objectPrototypeKeys then InheritedMember k
               else IconName ''info-circle''))"

text \<open>
  The text a template literal prints for an icon value. For an inherited member this is
  the engine's rendering of a native function (as V8 prints it; engines differ in white
  space only); \<^verbatim>\<open>constructor\<close> is the function \<^verbatim>\<open>Object\<close>.
\<close>

definition iconText :: "icon_value \<Rightarrow> string" where
  "iconText i =
     (case i of
        IconName s \<Rightarrow> s
      | InheritedMember k \<Rightarrow>
          if k = ''__proto__'' then ''[object Object]''
          else ''function '' @ (if k = ''constructor'' then ''Object'' else k)
               @ ''() { [native code] }'')"

record config =
  variant :: string
  title :: string
  message :: string
  dismissible :: bool
  duration :: int
  icon :: icon_value

definition defaults :: "options \<Rightarrow> config" where
  "defaults opts =
     \<lparr>variant = ''info'',
      title = ''Notification'',
      message = '''',
      dismissible = True,
      duration = 0,
      icon = getDefaultIcon (opt_variant opts)\<rparr>"

text \<open>\<^verbatim>\<open>Object.assign({}, defaults, options)\<close>: a property present in \<open>options\<close> wins.\<close>

definition assign :: "config \<Rightarrow> options \<Rightarrow> config" where
  "assign d opts =
     \<lparr>variant = (case opt_variant opts of None \<Rightarrow> variant d | Some v \<Rightarrow> v),
      title = (case opt_title opts of None \<Rightarrow> title d | Some t \<Rightarrow> t),
      message = (case opt_message opts of None \<Rightarrow> message d | Some m \<Rightarrow> m),
      dismissible = (case opt_dismissible opts of None \<Rightarrow> dismissible d | Some b \<Rightarrow> b),
      duration = (case opt_duration opts of None \<Rightarrow> duration d | Some n \<Rightarrow> n),
      icon = (case opt_icon opts of None \<Rightarrow> icon d | Some i \<Rightarrow> IconName i)\<rparr>"

definition showConfig :: "options \<Rightarrow> config" where
  "showConfig opts = assign (defaults opts) opts"

text \<open>
  The template literal that \<^verbatim>\<open>show\<close> assigns to \<^verbatim>\<open>notification.innerHTML\<close>, cut at
  its interpolations: the icon sits in the \<^verbatim>\<open>name\<close> attribute of the \<^verbatim>\<open>sl-icon\<close>, the
  title (already escaped) in the \<^verbatim>\<open>h3\<close>, the message in the message \<^verbatim>\<open>div\<close>.
\<close>

definition dismissMarkup :: "bool \<Rightarrow> string" where
  "dismissMarkup d =
     (if d then
        ''<sl-icon-button name='' @ [CHR 0x22] @ ''x-lg'' @ [CHR 0x22] @
        '' label='' @ [CHR 0x22] @ ''Dismiss'' @ [CHR 0x22] @
        '' class='' @ [CHR 0x22] @ ''notification-dismiss'' @ [CHR 0x22] @
        ''></sl-icon-button>''
      else '''')"

definition markupCardOpen :: "config \<Rightarrow> string" where
  "markupCardOpen c =
     ''\<newline>        <sl-card class='' @ [CHR 0x22] @ ''notification-card notification-card--'' @
       variant c @ [CHR 0x22] @ ''>'' @
     ''\<newline>          <div slot='' @ [CHR 0x22] @ ''header'' @ [CHR 0x22] @
       '' class='' @ [CHR 0x22] @ ''notification-header'' @ [CHR 0x22] @ ''>'' @
     ''\<newline>            <div class='' @ [CHR 0x22] @ ''notification-icon'' @ [CHR 0x22] @ ''>'' @
     ''\<newline>              ''"

definition iconTag :: "string \<Rightarrow> string" where
  "iconTag i = ''<sl-icon name='' @ [CHR 0x22] @ i @ [CHR 0x22] @ ''></sl-icon>''"

definition markupIconToTitle :: string where
  "markupIconToTitle =
     ''\<newline>            </div>'' @
     ''\<newline>            <div class='' @ [CHR 0x22] @ ''notification-title-wrapper'' @ [CHR 0x22] @ ''>'' @
     ''\<newline>              ''"

definition titleTag :: "string \<Rightarrow> string" where
  "titleTag t =
     ''<h3 class='' @ [CHR 0x22] @ ''notification-title'' @ [CHR 0x22] @ ''>'' @ t @ ''</h3>''"

definition markupTitleToMessage :: "config \<Rightarrow> string" where
  "markupTitleToMessage c =
     ''\<newline>            </div>'' @
     ''\<newline>            '' @ dismissMarkup (dismissible c) @
     ''\<newline>          </div>'' @
     ''\<newline>          ''"

definition messageDiv :: "string \<Rightarrow> string" where
  "messageDiv m =
     ''<div class='' @ [CHR 0x22] @ ''notification-message'' @ [CHR 0x22] @ ''>'' @
     ''\<newline>            '' @ m @
     ''\<newline>          </div>''"

definition markupCardClose :: string where
  "markupCardClose =
     ''\<newline>        </sl-card>'' @
     ''\<newline>      ''"

definition notificationMarkup :: "config \<Rightarrow> string" where
  "notificationMarkup c =
     markupCardOpen c @ iconTag (iconText (icon c)) @ markupIconToTitle @
     titleTag (escapeHtml (title c)) @ markupTitleToMessage c @ messageDiv (message c) @
     markupCardClose"

section \<open>Elements, timers and events\<close>

text \<open>
  A notification element, as far as the component looks at it: its \<^verbatim>\<open>className\<close>, the
  two \<^verbatim>\<open>data-\<close> attributes it reads, whether it has a descendant of class
  \<^verbatim>\<open>notification-dismiss\<close>, the text of its first descendant of class
  \<^verbatim>\<open>notification-title\<close> (if any), its parent, the inline style properties the component
  writes, and how many listeners of each kind have been added (every
  \<^verbatim>\<open>addEventListener\<close> call of the source passes a fresh closure, so none is merged with
  an earlier one). \<open>clickListeners\<close> counts the listeners on the dismiss button.
  \<open>parsedFrom\<close> is the markup an element made by \<^verbatim>\<open>show\<close> was parsed from.
\<close>

datatype parent_node = Container | PageMarkup

record element =
  className :: string
  notificationInitialized :: "string option"
  autoDismiss :: "string option"
  hasDismissButton :: bool
  titleText :: "string option"
  parentNode :: "parent_node option"
  tabindex :: "string option"
  opacity :: string
  transform :: string
  transition :: string
  clickListeners :: nat
  mouseenterListeners :: nat
  mouseleaveListeners :: nat
  keydownListeners :: nat
  parsedFrom :: string

text \<open>The closures handed to \<^verbatim>\<open>setTimeout\<close>, each with the element it has captured.\<close>

datatype callback = DismissCard nat | RemoveCard nat | AnimateInTick nat

text \<open>The custom events dispatched on the document, with their \<^verbatim>\<open>detail\<close>.\<close>

datatype event =
    NotificationDismiss string "string option"
  | NotificationRemoved string

datatype error = TypeError

text \<open>
  The page: a clock in milliseconds, the elements (an element is named by its index),
  the singleton container and its children in order, the pending timers with the time
  each is due, the events dispatched so far, for each of them the elements as its
  listeners found them (\<^verbatim>\<open>dispatchEvent\<close> runs the listeners before it returns, so they see
  the document as it is at that point of the script), and the log kept in
  \<^verbatim>\<open>localStorage\<close> (variant, title, timestamp).
\<close>

record world =
  now :: nat
  elements :: "element list"
  containerExists :: bool
  containerChildren :: "nat list"
  timers :: "(nat \<times> callback) list"
  events :: "event list"
  observed :: "element list list"
  notificationLogs :: "(string \<times> string option \<times> nat) list"

definition updElement :: "nat \<Rightarrow> (element \<Rightarrow> element) \<Rightarrow> world \<Rightarrow> world" where
  "updElement el f w = w\<lparr>elements := (elements w)[el := f (elements w ! el)]\<rparr>"

text \<open>Delays are below \<open>2^31\<close> ms, the range in which a browser honours them as given.\<close>

definition setTimeout :: "callback \<Rightarrow> nat \<Rightarrow> world \<Rightarrow> world" where
  "setTimeout cb delay w = w\<lparr>timers := timers w @ [(now w + delay, cb)]\<rparr>"

definition dispatchEvent :: "event \<Rightarrow> world \<Rightarrow> world" where
  "dispatchEvent ev w =
     w\<lparr>events := events w @ [ev], observed := observed w @ [elements w]\<rparr>"

section \<open>The notification card component\<close>

definition getVariant :: "element \<Rightarrow> string" where
  "getVariant card' =
     (let classes = className card' in
      if str_includes classes ''notification-card--success'' then ''success''
      else if str_includes classes ''notification-card--warning'' then ''warning''
      else if str_includes classes ''notification-card--danger'' then ''danger''
      else ''info'')"

text \<open>\<^verbatim>\<open>card.remove()\<close>: takes the element out of its parent; nothing happens without one.\<close>

definition removeElement :: "nat \<Rightarrow> world \<Rightarrow> world" where
  "removeElement el w =
     updElement el (\<lambda>c. c\<lparr>parentNode := None\<rparr>)
       (w\<lparr>containerChildren := removeAll el (containerChildren w)\<rparr>)"

text \<open>The closure that \<open>dismissCard\<close> schedules: remove, then announce.\<close>

definition removeCallback :: "nat \<Rightarrow> world \<Rightarrow> world" where
  "removeCallback el w =
     (let w1 = removeElement el w in
      dispatchEvent (NotificationRemoved (getVariant (elements w1 ! el))) w1)"

definition dismissCard :: "nat \<Rightarrow> world \<Rightarrow> world" where
  "dismissCard el w =
     (let card' = elements w ! el;
          w1 = dispatchEvent (NotificationDismiss (getVariant card') (titleText card')) w;
          w2 = updElement el
                 (\<lambda>c. c\<lparr>transition := ''all 0.3s ease-out'',
                        opacity := ''0'',
                        transform := ''translateX(100%)''\<rparr>) w1
      in setTimeout (RemoveCard el) 300 w2)"

definition animateInTick :: "nat \<Rightarrow> world \<Rightarrow> world" where
  "animateInTick el w =
     updElement el
       (\<lambda>c. c\<lparr>transition := ''all 0.4s cubic-bezier(0.4, 0, 0.2, 1)'',
              opacity := ''1'',
              transform := ''translateX(0)''\<rparr>) w"

definition animateIn :: "nat \<Rightarrow> world \<Rightarrow> world" where
  "animateIn el w =
     setTimeout (AnimateInTick el) 50
       (updElement el (\<lambda>c. c\<lparr>opacity := ''0'', transform := ''translateX(100%)''\<rparr>) w)"

text \<open>\<^verbatim>\<open>logs.slice(-50)\<close> keeps the last fifty entries.\<close>

definition logNotification :: "nat \<Rightarrow> world \<Rightarrow> world" where
  "logNotification el w =
     (let card' = elements w ! el;
          logs = notificationLogs w @ [(getVariant card', titleText card', now w)]
      in w\<lparr>notificationLogs := drop (length logs - 50) logs\<rparr>)"

definition initializeCard :: "nat \<Rightarrow> world \<Rightarrow> world" where
  "initializeCard el w =
     (let card' = elements w ! el;
          dismissButton = hasDismissButton card';
          w1 = (if dismissButton
                then updElement el (\<lambda>c. c\<lparr>clickListeners := Suc (clickListeners c)\<rparr>) w
                else w);
          w2 = (if getVariant card' = ''success'' \<and> autoDismiss card' \<noteq> Some ''false''
                then setTimeout (DismissCard el) 5000 w1
                else w1);
          w3 = animateIn el w2;
          w4 = updElement el
                 (\<lambda>c. c\<lparr>mouseenterListeners := Suc (mouseenterListeners c),
                        mouseleaveListeners := Suc (mouseleaveListeners c)\<rparr>) w3;
          w5 = updElement el
                 (\<lambda>c. c\<lparr>tabindex := Some ''0'',
                        keydownListeners := Suc (keydownListeners c)\<rparr>) w4
      in logNotification el w5)"

text \<open>
  \<^verbatim>\<open>document.querySelectorAll('.notification-card')\<close>: the elements in the document
  that carry the class token, in the order of the model's element list.
\<close>

definition notificationCards :: "world \<Rightarrow> nat list" where
  "notificationCards w =
     filter (\<lambda>el. parentNode (elements w ! el) \<noteq> None \<and>
                  ''notification-card'' \<in> set (classTokens (className (elements w ! el))))
       [0 ..< length (elements w)]"

definition initializeOne :: "nat \<Rightarrow> world \<Rightarrow> world" where
  "initializeOne el w =
     (if notificationInitialized (elements w ! el) = Some ''true'' then w
      else initializeCard el
             (updElement el (\<lambda>c. c\<lparr>notificationInitialized := Some ''true''\<rparr>) w))"

definition initializeAll :: "world \<Rightarrow> world" where
  "initializeAll w = fold initializeOne (notificationCards w) w"

text \<open>\<^verbatim>\<open>NotificationCard.init(element)\<close>; \<open>None\<close> is the call without an element.\<close>

definition init :: "nat option \<Rightarrow> world \<Rightarrow> world" where
  "init element w =
     (case element of
        Some el \<Rightarrow>
          if notificationInitialized (elements w ! el) \<noteq> Some ''true''
          then initializeCard el
                 (updElement el (\<lambda>c. c\<lparr>notificationInitialized := Some ''true''\<rparr>) w)
          else w
      | None \<Rightarrow> initializeAll w)"

text \<open>
  The element that \<^verbatim>\<open>notification.firstElementChild\<close> yields once the browser has parsed
  the markup: the \<^verbatim>\<open>sl-card\<close>, with the class attribute as written, the title node
  holding what the parser reads from the escaped title, and the dismiss button when one
  was written. This is what the parser yields when \<open>variant\<close> and \<open>icon\<close> hold
  neither a double quote, an ampersand, a carriage return nor U+0000 and, for a card
  without a dismiss button, the message brings no element of class
  \<^verbatim>\<open>notification-dismiss\<close> of its own.
\<close>

definition firstElementChild :: "string \<Rightarrow> config \<Rightarrow> element" where
  "firstElementChild html c =
     \<lparr>className = ''notification-card notification-card--'' @ variant c,
      notificationInitialized = None,
      autoDismiss = None,
      hasDismissButton = dismissible c,
      titleText = Some (decodeText (escapeHtml (title c))),
      parentNode = None,
      tabindex = None,
      opacity = '''',
      transform = '''',
      transition = '''',
      clickListeners = 0,
      mouseenterListeners = 0,
      mouseleaveListeners = 0,
      keydownListeners = 0,
      parsedFrom = html\<rparr>"

text \<open>
  \<^verbatim>\<open>NotificationCard.show(options)\<close>. The first thing the function evaluates is
  \<^verbatim>\<open>options.variant\<close>, inside the \<^verbatim>\<open>defaults\<close> literal; on \<^verbatim>\<open>undefined\<close> that read throws.
  The result is the exception or the new element, and the page as the call leaves it.
\<close>

definition showCard :: "options \<Rightarrow> world \<Rightarrow> nat \<times> world" where
  "showCard opts w =
     (let config = showConfig opts;
          w1 = (if containerExists w then w
                else w\<lparr>containerExists := True, containerChildren := []\<rparr>);
          card' = firstElementChild (notificationMarkup config) config;
          el = length (elements w1);
          w2 = w1\<lparr>elements := elements w1 @ [card'\<lparr>parentNode := Some Container\<rparr>],
                  containerChildren := containerChildren w1 @ [el]\<rparr>;
          w3 = initializeCard el w2;
          w4 = (if duration config > 0
                then setTimeout (DismissCard el) (nat (duration config)) w3
                else w3)
      in (el, w4))"

definition "show" :: "options option \<Rightarrow> world \<Rightarrow> (error + nat) \<times> world" where
  "show options w =
     (case options of
        None \<Rightarrow> (Inl TypeError, w)
      | Some opts \<Rightarrow> (let (el, w') = showCard opts w in (Inr el, w')))"

section \<open>The event loop\<close>

text \<open>What a timer does when it fires: the body of the closure it was given.\<close>

definition fireTimer :: "callback \<Rightarrow> world \<Rightarrow> world" where
  "fireTimer cb w =
     (case cb of
        DismissCard el \<Rightarrow> dismissCard el w
      | RemoveCard el \<Rightarrow> removeCallback el w
      | AnimateInTick el \<Rightarrow> animateInTick el w)"

text \<open>The timer that fires next: the earliest due, the first set among equals.\<close>

fun earliest :: "(nat \<times> callback) list \<Rightarrow> (nat \<times> callback) option" where
  "earliest [] = None"
| "earliest (t # ts) =
     (case earliest ts of
        None \<Rightarrow> Some t
      | Some u \<Rightarrow> if fst u < fst t then Some u else Some t)"

fun cbWeight :: "callback \<Rightarrow> nat" where
  "cbWeight (DismissCard _) = 2"
| "cbWeight (RemoveCard _) = 1"
| "cbWeight (AnimateInTick _) = 1"

definition pendingWork :: "world \<Rightarrow> nat" where
  "pendingWork w = sum_list (map (\<lambda>t. cbWeight (snd t)) (timers w))"

text \<open>
  Let the clock run up to \<open>deadline\<close>: fire every timer that comes due until then, in
  the order the browser fires them, timers set on the way included.
\<close>

function runTimers :: "nat \<Rightarrow> world \<Rightarrow> world" where
  "runTimers deadline w =
     (case earliest (timers w) of
        None \<Rightarrow> w\<lparr>now := max (now w) deadline\<rparr>
      | Some (due, cb) \<Rightarrow>
          if due \<le> deadline
          then runTimers deadline
                 (fireTimer cb
                    (w\<lparr>now := max (now w) due, timers := remove1 (due, cb) (timers w)\<rparr>))
          else w\<lparr>now := max (now w) deadline\<rparr>)"
  by pat_completeness auto
termination
proof (relation "measure (\<lambda>(deadline, w). pendingWork w)")
  show "wf (measure (\<lambda>(deadline, w). pendingWork w))"
    by simp
next
  fix deadline :: nat and w :: world and x2 :: "nat \<times> callback" and due :: nat and cb :: callback
  assume e: "earliest (timers w) = Some x2" and x2: "(due, cb) = x2"
  have mem: "earliest ts = Some t \<Longrightarrow> t \<in> set ts" for ts and t :: "nat \<times> callback"
    by (induction ts arbitrary: t) (auto split: option.splits if_splits)
  from e x2 have "(due, cb) \<in> set (timers w)"
    using mem by blast
  then have split: "sum_list (map (\<lambda>t. cbWeight (snd t)) (timers w)) =
      cbWeight cb + sum_list (map (\<lambda>t. cbWeight (snd t)) (remove1 (due, cb) (timers w)))"
    using sum_list_map_remove1 [of "(due, cb)" "timers w" "\<lambda>t. cbWeight (snd t)"] by simp
  let ?w = "w\<lparr>now := max (now w) due, timers := remove1 (due, cb) (timers w)\<rparr>"
  have "pendingWork (fireTimer cb ?w) < pendingWork w"
    using split
    by (cases cb)
       (simp_all add: pendingWork_def fireTimer_def dismissCard_def removeCallback_def
          removeElement_def animateInTick_def updElement_def setTimeout_def dispatchEvent_def
          Let_def)
  then show "((deadline, fireTimer cb ?w), (deadline, w)) \<in> measure (\<lambda>(deadline, w). pendingWork w)"
    by simp
qed

declare runTimers.simps [simp del]

section \<open>What the user does\<close>

text \<open>
  A click on the dismiss button runs every click listener added to it; each calls
  \<^verbatim>\<open>dismissCard(card)\<close>. A key press on the element runs every key listener; each
  dismisses on Escape when the element had a dismiss button. Pointer enter and leave set
  and clear the lift transform.
\<close>

definition clickDismiss :: "nat \<Rightarrow> world \<Rightarrow> world" where
  "clickDismiss el w =
     (if hasDismissButton (elements w ! el)
      then (dismissCard el ^^ clickListeners (elements w ! el)) w
      else w)"

definition keydown :: "nat \<Rightarrow> string \<Rightarrow> world \<Rightarrow> world" where
  "keydown el key w =
     ((\<lambda>w'. if key = ''Escape'' \<and> hasDismissButton (elements w ! el)
            then dismissCard el w' else w')
        ^^ keydownListeners (elements w ! el)) w"

definition mouseenter :: "nat \<Rightarrow> world \<Rightarrow> world" where
  "mouseenter el w =
     (if 0 < mouseenterListeners (elements w ! el)
      then updElement el (\<lambda>c. c\<lparr>transform := ''translateY(-4px) scale(1.02)''\<rparr>) w
      else w)"

definition mouseleave :: "nat \<Rightarrow> world \<Rightarrow> world" where
  "mouseleave el w =
     (if 0 < mouseleaveListeners (elements w ! el)
      then updElement el (\<lambda>c. c\<lparr>transform := ''''\<rparr>) w
      else w)"

section \<open>The Drupal bridge for status messages\<close>

text \<open>
  A status-message block of the host page: its class tokens, the text of its
  \<^verbatim>\<open>.messages__title\<close> descendant (if any), the markup inside its first descendant
  matching \<^verbatim>\<open>.messages__content, .messages__list\<close> (if any), its own inner markup, its
  \<^verbatim>\<open>display\<close> style and the tags that \<^verbatim>\<open>once\<close> has left on it.
\<close>

record message_block =
  classList :: "string list"
  messagesTitle :: "string option"
  messagesContent :: "string option"
  innerHTML :: string
  display :: string
  dataOnce :: "string list"

text \<open>
  The body of the \<^verbatim>\<open>forEach\<close> in \<^verbatim>\<open>convertDrupalMessages\<close>. \<open>engine\<close> says whether
  \<^verbatim>\<open>window.NotificationCard\<close> is defined.
\<close>

definition messageVariant :: "message_block \<Rightarrow> string" where
  "messageVariant messageEl =
     (let v0 = ''info'';
          v1 = (if ''messages--status'' \<in> set (classList messageEl) then ''success'' else v0);
          v2 = (if ''messages--warning'' \<in> set (classList messageEl) then ''warning'' else v1);
          v3 = (if ''messages--error'' \<in> set (classList messageEl) then ''danger'' else v2)
      in v3)"

definition messageOptions :: "message_block \<Rightarrow> options" where
  "messageOptions messageEl =
     (let variant' = messageVariant messageEl;
          title' = (case messagesTitle messageEl of
                      None \<Rightarrow> ''Notification''
                    | Some t \<Rightarrow> if t = '''' then ''Notification'' else t);
          message' = (case messagesContent messageEl of
                        Some h \<Rightarrow> h
                      | None \<Rightarrow> innerHTML messageEl)
      in \<lparr>opt_variant = Some variant',
          opt_title = Some title',
          opt_message = Some message',
          opt_dismissible = Some True,
          opt_duration = Some (if variant' = ''success'' then 5000 else 0),
          opt_icon = None\<rparr>)"

definition convertMessage :: "bool \<Rightarrow> message_block \<Rightarrow> world \<Rightarrow> message_block \<times> world" where
  "convertMessage engine messageEl w =
     (let w' = (if engine then snd (show (Some (messageOptions messageEl)) w) else w)
      in (messageEl\<lparr>display := ''none''\<rparr>, w'))"

text \<open>
  \<^verbatim>\<open>once('convert-messages', '.messages', context).forEach(...)\<close> over the blocks of the
  context: a block of class \<^verbatim>\<open>messages\<close> that does not carry the tag yet gets it and is
  converted; every other block is left alone.
\<close>

fun convertDrupalMessages :: "bool \<Rightarrow> message_block list \<Rightarrow> world \<Rightarrow> message_block list \<times> world" where
  "convertDrupalMessages engine [] w = ([], w)"
| "convertDrupalMessages engine (b # bs) w =
     (if ''messages'' \<in> set (classList b) \<and> ''convert-messages'' \<notin> set (dataOnce b)
      then (let (b', w') = convertMessage engine (b\<lparr>dataOnce := dataOnce b @ [''convert-messages'']\<rparr>) w;
                (bs', w'') = convertDrupalMessages engine bs w'
            in (b' # bs', w''))
      else (let (bs', w') = convertDrupalMessages engine bs w in (b # bs', w')))"

section \<open>Concrete pages\<close>

text \<open>
  A freshly loaded page without notifications, an element as the page's own markup
  brings it (nothing wired yet), and the empty argument object \<^verbatim>\<open>{}\<close>.
\<close>

definition emptyPage :: world where
  "emptyPage =
     \<lparr>now = 0, elements = [], containerExists = False, containerChildren = [],
      timers = [], events = [], observed = [], notificationLogs = []\<rparr>"

definition markupCard :: "string \<Rightarrow> bool \<Rightarrow> string option \<Rightarrow> element" where
  "markupCard cls button ttl =
     \<lparr>className = cls,
      notificationInitialized = None,
      autoDismiss = None,
      hasDismissButton = button,
      titleText = ttl,
      parentNode = Some PageMarkup,
      tabindex = None,
      opacity = '''',
      transform = '''',
      transition = '''',
      clickListeners = 0,
      mouseenterListeners = 0,
      mouseleaveListeners = 0,
      keydownListeners = 0,
      parsedFrom = ''''\<rparr>"

definition pageWith :: "element list \<Rightarrow> world" where
  "pageWith els = emptyPage\<lparr>elements := els\<rparr>"

definition noOptions :: options where
  "noOptions =
     \<lparr>opt_variant = None, opt_title = None, opt_message = None,
      opt_dismissible = None, opt_duration = None, opt_icon = None\<rparr>"

text \<open>The argument of the scenario \<^verbatim>\<open>show({title:'<script>x</script>', message:'<b>ok</b>'})\<close>.\<close>

definition scriptOptions :: options where
  "scriptOptions =
     noOptions\<lparr>opt_title := Some ''<script>x</script>'', opt_message := Some ''<b>ok</b>''\<rparr>"

text \<open>The argument \<^verbatim>\<open>{variant: 'constructor'}\<close>: a variant that is none of the four.\<close>

definition constructorOptions :: options where
  "constructorOptions = noOptions\<lparr>opt_variant := Some ''constructor''\<rparr>"

text \<open>
  A page whose markup holds one info card with a dismiss button, and one whose markup
  holds one success card with a dismiss button.
\<close>

definition helloPage :: world where
  "helloPage =
     pageWith [markupCard ''notification-card notification-card--info'' True (Some ''Hello'')]"

definition savedPage :: world where
  "savedPage =
     pageWith [markupCard ''notification-card notification-card--success'' True (Some ''Saved'')]"

text \<open>
  The arguments \<^verbatim>\<open>{variant: 'success', duration: 0}\<close> and
  \<^verbatim>\<open>{variant: 'info', duration: 3000}\<close>.
\<close>

definition successZeroOptions :: options where
  "successZeroOptions = noOptions\<lparr>opt_variant := Some ''success'', opt_duration := Some 0\<rparr>"

definition infoTimedOptions :: options where
  "infoTimedOptions = noOptions\<lparr>opt_variant := Some ''info'', opt_duration := Some 3000\<rparr>"

text \<open>A page holding one info card that has already been taken out of the document.\<close>

definition detachedPage :: world where
  "detachedPage =
     pageWith [(markupCard ''notification-card notification-card--info'' True (Some ''Hello''))
                 \<lparr>parentNode := None\<rparr>]"

text \<open>
  A Drupal status block of type \<^verbatim>\<open>status\<close> with a title and a content element, and an
  error block that has neither.
\<close>

definition statusBlock :: message_block where
  "statusBlock =
     \<lparr>classList = [''messages'', ''messages--status''],
      messagesTitle = Some ''Status message'',
      messagesContent = Some ''<p>Saved.</p>'',
      innerHTML = ''<h2 class=messages__title>Status message</h2><div class=messages__content><p>Saved.</p></div>'',
      display = '''',
      dataOnce = []\<rparr>"

definition errorBlock :: message_block where
  "errorBlock =
     \<lparr>classList = [''messages'', ''messages--error''],
      messagesTitle = None,
      messagesContent = None,
      innerHTML = ''Access denied.'',
      display = '''',
      dataOnce = []\<rparr>"

text \<open>
  The argument \<^verbatim>\<open>{title: 'a<b', message: '<i>m</i>', icon: 'star<b>'}\<close>: markup characters
  in all three fields.
\<close>

definition rawOptions :: options where
  "rawOptions =
     noOptions\<lparr>opt_title := Some ''a<b'', opt_message := Some ''<i>m</i>'',
                opt_icon := Some ''star<b>''\<rparr>"

text \<open>An element whose class holds a longer name that begins like the success marker.\<close>

definition successfulCard :: element where
  "successfulCard =
     markupCard ''notification-card notification-card--successful'' True (Some ''Hello'')"

text \<open>A status block whose title element is there but empty.\<close>

definition emptyTitleBlock :: message_block where
  "emptyTitleBlock =
     \<lparr>classList = [''messages'', ''messages--status''],
      messagesTitle = Some '''',
      messagesContent = Some ''<p>Saved.</p>'',
      innerHTML = ''<h2 class=messages__title></h2><div class=messages__content><p>Saved.</p></div>'',
      display = '''',
      dataOnce = []\<rparr>"

section \<open>Basic facts\<close>

subsection \<open>Strings\<close>

lemma str_includes_iff: "str_includes s sub \<longleftrightarrow> (\<exists>ps ss. s = ps @ sub @ ss)"
proof (induction s)
  case Nil
  then show ?case by auto
next
  case (Cons c cs)
  show ?case
  proof
    assume "str_includes (c # cs) sub"
    then consider "prefix sub (c # cs)" | "str_includes cs sub" by auto
    then show "\<exists>ps ss. c # cs = ps @ sub @ ss"
    proof cases
      case 1
      then obtain ss where "c # cs = sub @ ss" by (auto simp: prefix_def)
      then have "c # cs = [] @ sub @ ss" by simp
      then show ?thesis by blast
    next
      case 2
      with Cons obtain ps ss where "cs = ps @ sub @ ss" by auto
      then have "c # cs = (c # ps) @ sub @ ss" by simp
      then show ?thesis by blast
    qed
  next
    assume "\<exists>ps ss. c # cs = ps @ sub @ ss"
    then obtain ps ss where h: "c # cs = ps @ sub @ ss" by blast
    show "str_includes (c # cs) sub"
    proof (cases ps)
      case Nil
      with h have "prefix sub (c # cs)" by (simp add: prefix_def)
      then show ?thesis by simp
    next
      case (Cons p ps')
      with h have "cs = ps' @ sub @ ss" by simp
      with Cons.IH have "str_includes cs sub" by blast
      then show ?thesis by simp
    qed
  qed
qed

lemma str_includes_mid: "str_includes (ps @ sub @ ss) sub"
  using str_includes_iff by blast

lemma escapeHtml_no_angle: "CHR ''<'' \<notin> set (escapeHtml t) \<and> CHR ''>'' \<notin> set (escapeHtml t)"
  by (induction t) auto

lemma normalizeNewlines_Cons [simp]:
  "c \<noteq> CHR 0x0D \<Longrightarrow> normalizeNewlines (c # cs) = c # normalizeNewlines cs"
  by (cases cs) simp_all

lemma normalizeNewlines_append:
  "CHR 0x0D \<notin> set xs \<Longrightarrow> normalizeNewlines (xs @ ys) = xs @ normalizeNewlines ys"
  by (induction xs) auto

lemma normalizeNewlines_escapeHtml:
  "normalizeNewlines (escapeHtml t) = escapeHtml (normalizeNewlines t)"
proof (induction t rule: normalizeNewlines.induct)
  case 1
  then show ?case by simp
next
  case (2 c)
  then show ?case by (simp add: normalizeNewlines_append)
next
  case (3 c d cs)
  show ?case
  proof (cases "c = CHR 0x0D")
    case False
    then show ?thesis
      using 3 by (simp add: normalizeNewlines_append)
  next
    case True
    show ?thesis
    proof (cases "d = CHR 0x0A")
      case True
      with \<open>c = CHR 0x0D\<close> show ?thesis using 3 by simp
    next
      case False
      have "escapeHtml (d # cs) \<noteq> [] \<and> hd (escapeHtml (d # cs)) \<noteq> CHR 0x0A"
        using False by auto
      then obtain x xs where x: "escapeHtml (d # cs) = x # xs" "x \<noteq> CHR 0x0A"
        by (cases "escapeHtml (d # cs)") auto
      have "normalizeNewlines (CHR 0x0D # x # xs) = CHR 0x0A # normalizeNewlines (x # xs)"
        using x(2) by simp
      then show ?thesis
        using True False 3 x by simp
    qed
  qed
qed

lemma readCharacters_escapeHtml:
  "readCharacters (escapeHtml t) = filter (\<lambda>c. c \<noteq> CHR 0x00) t"
  by (induction t) auto

lemma decodeText_escapeHtml: "decodeText (escapeHtml t) = parserText t"
  by (simp add: decodeText_def parserText_def normalizeNewlines_escapeHtml readCharacters_escapeHtml)

lemma normalizeNewlines_id: "CHR 0x0D \<notin> set t \<Longrightarrow> normalizeNewlines t = t"
  using normalizeNewlines_append [of t "[]"] by simp

lemma parserText_id: "CHR 0x0D \<notin> set t \<Longrightarrow> CHR 0x00 \<notin> set t \<Longrightarrow> parserText t = t"
  by (auto simp: parserText_def normalizeNewlines_id filter_id_conv)

lemmas markup_defs =
  markupCardOpen_def iconTag_def markupIconToTitle_def titleTag_def markupTitleToMessage_def
  messageDiv_def markupCardClose_def dismissMarkup_def

subsection \<open>Configurations\<close>

lemma showConfig_fields:
  "variant (showConfig opts) = (case opt_variant opts of None \<Rightarrow> ''info'' | Some v \<Rightarrow> v)"
  "title (showConfig opts) = (case opt_title opts of None \<Rightarrow> ''Notification'' | Some t \<Rightarrow> t)"
  "message (showConfig opts) = (case opt_message opts of None \<Rightarrow> '''' | Some m \<Rightarrow> m)"
  "dismissible (showConfig opts) = (case opt_dismissible opts of None \<Rightarrow> True | Some b \<Rightarrow> b)"
  "duration (showConfig opts) = (case opt_duration opts of None \<Rightarrow> 0 | Some n \<Rightarrow> n)"
  "icon (showConfig opts) =
     (case opt_icon opts of None \<Rightarrow> getDefaultIcon (opt_variant opts) | Some i \<Rightarrow> IconName i)"
  by (simp_all add: showConfig_def assign_def defaults_def split: option.splits)

lemma getDefaultIcon_known:
  "getDefaultIcon None = IconName ''info-circle''"
  "getDefaultIcon (Some ''info'') = IconName ''info-circle''"
  "getDefaultIcon (Some ''success'') = IconName ''check-circle''"
  "getDefaultIcon (Some ''warning'') = IconName ''exclamation-triangle''"
  "getDefaultIcon (Some ''danger'') = IconName ''exclamation-octagon''"
  by (simp_all add: getDefaultIcon_def icons_def)

lemma getDefaultIcon_unknown:
  "k \<notin> {''info'', ''success'', ''warning'', ''danger''} \<Longrightarrow> k \<notin> set objectPrototypeKeys \<Longrightarrow>
   getDefaultIcon (Some k) = IconName ''info-circle''"
  by (simp add: getDefaultIcon_def icons_def)

lemma showConfig_noOptions:
  "showConfig noOptions =
     \<lparr>variant = ''info'', title = ''Notification'', message = '''', dismissible = True,
      duration = 0, icon = IconName ''info-circle''\<rparr>"
  by (simp add: showConfig_def assign_def defaults_def noOptions_def getDefaultIcon_def)

lemma showConfig_scriptOptions:
  "showConfig scriptOptions =
     \<lparr>variant = ''info'', title = ''<script>x</script>'', message = ''<b>ok</b>'',
      dismissible = True, duration = 0, icon = IconName ''info-circle''\<rparr>"
  by (simp add: scriptOptions_def showConfig_def assign_def defaults_def noOptions_def
        getDefaultIcon_def)

lemma showConfig_successZeroOptions:
  "showConfig successZeroOptions =
     \<lparr>variant = ''success'', title = ''Notification'', message = '''', dismissible = True,
      duration = 0, icon = IconName ''check-circle''\<rparr>"
  by (simp add: showConfig_def assign_def defaults_def noOptions_def successZeroOptions_def
        getDefaultIcon_def icons_def)

lemma showConfig_infoTimedOptions:
  "showConfig infoTimedOptions =
     \<lparr>variant = ''info'', title = ''Notification'', message = '''', dismissible = True,
      duration = 3000, icon = IconName ''info-circle''\<rparr>"
  by (simp add: showConfig_def assign_def defaults_def noOptions_def infoTimedOptions_def
        getDefaultIcon_def icons_def)

subsection \<open>The variant of an element\<close>

text \<open>\<open>getVariant\<close> looks at the class string only, so no other update changes it.\<close>

lemma getVariant_update [simp]:
  "getVariant (c\<lparr>notificationInitialized := m\<rparr>) = getVariant c"
  "getVariant (c\<lparr>autoDismiss := a\<rparr>) = getVariant c"
  "getVariant (c\<lparr>hasDismissButton := b\<rparr>) = getVariant c"
  "getVariant (c\<lparr>titleText := t\<rparr>) = getVariant c"
  "getVariant (c\<lparr>parentNode := p\<rparr>) = getVariant c"
  "getVariant (c\<lparr>tabindex := i\<rparr>) = getVariant c"
  "getVariant (c\<lparr>opacity := s\<rparr>) = getVariant c"
  "getVariant (c\<lparr>transform := s\<rparr>) = getVariant c"
  "getVariant (c\<lparr>transition := s\<rparr>) = getVariant c"
  "getVariant (c\<lparr>clickListeners := n\<rparr>) = getVariant c"
  "getVariant (c\<lparr>mouseenterListeners := n\<rparr>) = getVariant c"
  "getVariant (c\<lparr>mouseleaveListeners := n\<rparr>) = getVariant c"
  "getVariant (c\<lparr>keydownListeners := n\<rparr>) = getVariant c"
  "getVariant (c\<lparr>parsedFrom := s\<rparr>) = getVariant c"
  by (simp_all add: getVariant_def)

lemma getVariant_priority:
  "getVariant e \<in> {''success'', ''warning'', ''danger'', ''info''}
   \<and> (className e = className e' \<longrightarrow> getVariant e = getVariant e')
   \<and> (str_includes (className e) ''notification-card--success'' \<longrightarrow> getVariant e = ''success'')
   \<and> (\<not> str_includes (className e) ''notification-card--success''
        \<and> str_includes (className e) ''notification-card--warning'' \<longrightarrow> getVariant e = ''warning'')
   \<and> (\<not> str_includes (className e) ''notification-card--success''
        \<and> \<not> str_includes (className e) ''notification-card--warning''
        \<and> str_includes (className e) ''notification-card--danger'' \<longrightarrow> getVariant e = ''danger'')
   \<and> (\<not> str_includes (className e) ''notification-card--success''
        \<and> \<not> str_includes (className e) ''notification-card--warning''
        \<and> \<not> str_includes (className e) ''notification-card--danger'' \<longrightarrow> getVariant e = ''info'')
   \<and> getVariant (e\<lparr>className := ''notification-card--warning''\<rparr>) = ''warning''
   \<and> getVariant (e\<lparr>className := ''notification-card''\<rparr>) = ''info''
   \<and> getVariant (e\<lparr>className := ''''\<rparr>) = ''info''"
  by (simp add: getVariant_def Let_def)

lemma getVariant_firstElementChild:
  "getVariant (firstElementChild html c) =
     (if str_includes (''notification-card notification-card--'' @ variant c) ''notification-card--success''
      then ''success''
      else if str_includes (''notification-card notification-card--'' @ variant c) ''notification-card--warning''
      then ''warning''
      else if str_includes (''notification-card notification-card--'' @ variant c) ''notification-card--danger''
      then ''danger'' else ''info'')"
  by (simp add: getVariant_def firstElementChild_def)

lemma getVariant_markupCard_info [simp]:
  "getVariant (markupCard ''notification-card notification-card--info'' b t) = ''info''"
  by (simp add: getVariant_def markupCard_def)

lemma getVariant_markupCard_success [simp]:
  "getVariant (markupCard ''notification-card notification-card--success'' b t) = ''success''"
  by (simp add: getVariant_def markupCard_def)

subsection \<open>What each operation leaves of the page\<close>

text \<open>One equation per field for every operation, so that a run of operations is read off field by field.\<close>

lemma emptyPage_simps [simp]:
  "now emptyPage = 0" "elements emptyPage = []" "\<not> containerExists emptyPage"
  "containerChildren emptyPage = []" "timers emptyPage = []" "events emptyPage = []"
  "notificationLogs emptyPage = []"
  "observed emptyPage = []"
  by (simp_all add: emptyPage_def)

lemma pageWith_simps [simp]:
  "now (pageWith els) = 0" "elements (pageWith els) = els" "\<not> containerExists (pageWith els)"
  "containerChildren (pageWith els) = []" "timers (pageWith els) = []" "events (pageWith els) = []"
  "notificationLogs (pageWith els) = []"
  "observed (pageWith els) = []"
  by (simp_all add: pageWith_def)

lemma updElement_simps [simp]:
  "now (updElement el f w) = now w"
  "timers (updElement el f w) = timers w"
  "events (updElement el f w) = events w"
  "observed (updElement el f w) = observed w"
  "containerExists (updElement el f w) = containerExists w"
  "containerChildren (updElement el f w) = containerChildren w"
  "notificationLogs (updElement el f w) = notificationLogs w"
  "length (elements (updElement el f w)) = length (elements w)"
  by (simp_all add: updElement_def)

lemma nth_updElement [simp]:
  "elements (updElement el f w) ! el' =
     (if el' = el \<and> el < length (elements w) then f (elements w ! el) else elements w ! el')"
  by (cases "el < length (elements w)") (auto simp: updElement_def not_less list_update_beyond)

lemma setTimeout_simps [simp]:
  "now (setTimeout cb d w) = now w"
  "timers (setTimeout cb d w) = timers w @ [(now w + d, cb)]"
  "events (setTimeout cb d w) = events w"
  "observed (setTimeout cb d w) = observed w"
  "elements (setTimeout cb d w) = elements w"
  "containerExists (setTimeout cb d w) = containerExists w"
  "containerChildren (setTimeout cb d w) = containerChildren w"
  "notificationLogs (setTimeout cb d w) = notificationLogs w"
  by (simp_all add: setTimeout_def)

lemma dispatchEvent_simps [simp]:
  "now (dispatchEvent ev w) = now w"
  "timers (dispatchEvent ev w) = timers w"
  "events (dispatchEvent ev w) = events w @ [ev]"
  "observed (dispatchEvent ev w) = observed w @ [elements w]"
  "elements (dispatchEvent ev w) = elements w"
  "containerExists (dispatchEvent ev w) = containerExists w"
  "containerChildren (dispatchEvent ev w) = containerChildren w"
  "notificationLogs (dispatchEvent ev w) = notificationLogs w"
  by (simp_all add: dispatchEvent_def)

lemma logNotification_simps [simp]:
  "now (logNotification el w) = now w"
  "timers (logNotification el w) = timers w"
  "events (logNotification el w) = events w"
  "observed (logNotification el w) = observed w"
  "elements (logNotification el w) = elements w"
  "containerExists (logNotification el w) = containerExists w"
  "containerChildren (logNotification el w) = containerChildren w"
  by (simp_all add: logNotification_def Let_def)

lemma animateIn_simps [simp]:
  "now (animateIn el w) = now w"
  "timers (animateIn el w) = timers w @ [(now w + 50, AnimateInTick el)]"
  "events (animateIn el w) = events w"
  "observed (animateIn el w) = observed w"
  "length (elements (animateIn el w)) = length (elements w)"
  "containerExists (animateIn el w) = containerExists w"
  "containerChildren (animateIn el w) = containerChildren w"
  "notificationLogs (animateIn el w) = notificationLogs w"
  by (simp_all add: animateIn_def)

lemma nth_animateIn [simp]:
  "elements (animateIn el w) ! el' =
     (if el' = el \<and> el < length (elements w)
      then (elements w ! el)\<lparr>opacity := ''0'', transform := ''translateX(100%)''\<rparr>
      else elements w ! el')"
  by (simp add: animateIn_def)

lemma animateInTick_simps [simp]:
  "now (animateInTick el w) = now w"
  "timers (animateInTick el w) = timers w"
  "events (animateInTick el w) = events w"
  "observed (animateInTick el w) = observed w"
  "containerExists (animateInTick el w) = containerExists w"
  "containerChildren (animateInTick el w) = containerChildren w"
  "notificationLogs (animateInTick el w) = notificationLogs w"
  "length (elements (animateInTick el w)) = length (elements w)"
  by (simp_all add: animateInTick_def)

lemma nth_animateInTick [simp]:
  "elements (animateInTick el w) ! el' =
     (if el' = el \<and> el < length (elements w)
      then (elements w ! el)\<lparr>transition := ''all 0.4s cubic-bezier(0.4, 0, 0.2, 1)'',
                               opacity := ''1'', transform := ''translateX(0)''\<rparr>
      else elements w ! el')"
  by (simp add: animateInTick_def)

lemma removeElement_simps [simp]:
  "now (removeElement el w) = now w"
  "timers (removeElement el w) = timers w"
  "events (removeElement el w) = events w"
  "observed (removeElement el w) = observed w"
  "containerExists (removeElement el w) = containerExists w"
  "containerChildren (removeElement el w) = removeAll el (containerChildren w)"
  "notificationLogs (removeElement el w) = notificationLogs w"
  "length (elements (removeElement el w)) = length (elements w)"
  by (simp_all add: removeElement_def)

lemma nth_removeElement [simp]:
  "elements (removeElement el w) ! el' =
     (if el' = el \<and> el < length (elements w) then (elements w ! el)\<lparr>parentNode := None\<rparr>
      else elements w ! el')"
  by (simp add: removeElement_def)

lemma removeCallback_simps [simp]:
  "now (removeCallback el w) = now w"
  "timers (removeCallback el w) = timers w"
  "events (removeCallback el w) = events w @ [NotificationRemoved (getVariant (elements w ! el))]"
  "observed (removeCallback el w) = observed w @ [elements (removeElement el w)]"
  "containerExists (removeCallback el w) = containerExists w"
  "containerChildren (removeCallback el w) = removeAll el (containerChildren w)"
  "notificationLogs (removeCallback el w) = notificationLogs w"
  "length (elements (removeCallback el w)) = length (elements w)"
  by (simp_all add: removeCallback_def Let_def)

lemma nth_removeCallback [simp]:
  "elements (removeCallback el w) ! el' =
     (if el' = el \<and> el < length (elements w) then (elements w ! el)\<lparr>parentNode := None\<rparr>
      else elements w ! el')"
  by (simp add: removeCallback_def Let_def)

lemma removeCallback_detached:
  assumes "parentNode (elements w ! el) = None" and "el \<notin> set (containerChildren w)"
  shows "elements (removeCallback el w) = elements w"
    and "containerChildren (removeCallback el w) = containerChildren w"
proof -
  have "(elements w ! el)\<lparr>parentNode := None\<rparr> = elements w ! el"
    using assms(1) by simp
  then show "elements (removeCallback el w) = elements w"
    by (simp add: removeCallback_def removeElement_def updElement_def Let_def dispatchEvent_def)
  show "containerChildren (removeCallback el w) = containerChildren w"
    using assms(2) by simp
qed

lemma dismissCard_simps [simp]:
  "now (dismissCard el w) = now w"
  "timers (dismissCard el w) = timers w @ [(now w + 300, RemoveCard el)]"
  "events (dismissCard el w) =
     events w @ [NotificationDismiss (getVariant (elements w ! el)) (titleText (elements w ! el))]"
  "observed (dismissCard el w) = observed w @ [elements w]"
  "containerExists (dismissCard el w) = containerExists w"
  "containerChildren (dismissCard el w) = containerChildren w"
  "notificationLogs (dismissCard el w) = notificationLogs w"
  "length (elements (dismissCard el w)) = length (elements w)"
  by (simp_all add: dismissCard_def Let_def)

lemma nth_dismissCard [simp]:
  "elements (dismissCard el w) ! el' =
     (if el' = el \<and> el < length (elements w)
      then (elements w ! el)\<lparr>transition := ''all 0.3s ease-out'', opacity := ''0'',
                               transform := ''translateX(100%)''\<rparr>
      else elements w ! el')"
  by (simp add: dismissCard_def Let_def)

lemma fireTimer_DismissCard [simp]: "fireTimer (DismissCard el) w = dismissCard el w"
  by (simp add: fireTimer_def)

lemma fireTimer_simps [simp]:
  "fireTimer (RemoveCard el) w = removeCallback el w"
  "fireTimer (AnimateInTick el) w = animateInTick el w"
  by (simp_all add: fireTimer_def)

subsection \<open>Mounting\<close>

lemma length_elements_initializeCard [simp]:
  "length (elements (initializeCard el w)) = length (elements w)"
  by (simp add: initializeCard_def Let_def)

lemma className_initializeCard [simp]:
  "className (elements (initializeCard el w) ! el') = className (elements w ! el')"
  by (simp add: initializeCard_def Let_def)

lemma parsedFrom_initializeCard [simp]:
  "parsedFrom (elements (initializeCard el w) ! el') = parsedFrom (elements w ! el')"
  by (simp add: initializeCard_def Let_def)

lemma initializeCard_simps [simp]:
  "now (initializeCard el w) = now w"
  "events (initializeCard el w) = events w"
  "observed (initializeCard el w) = observed w"
  "containerExists (initializeCard el w) = containerExists w"
  "containerChildren (initializeCard el w) = containerChildren w"
  "timers (initializeCard el w) =
     timers w
     @ (if getVariant (elements w ! el) = ''success'' \<and> autoDismiss (elements w ! el) \<noteq> Some ''false''
        then [(now w + 5000, DismissCard el)] else [])
     @ [(now w + 50, AnimateInTick el)]"
  by (simp_all add: initializeCard_def Let_def)

lemma nth_initializeCard:
  "el < length (elements w) \<Longrightarrow>
   elements (initializeCard el w) ! el =
     (elements w ! el)
       \<lparr>tabindex := Some ''0'', opacity := ''0'', transform := ''translateX(100%)'',
        clickListeners := (if hasDismissButton (elements w ! el)
                           then Suc (clickListeners (elements w ! el))
                           else clickListeners (elements w ! el)),
        mouseenterListeners := Suc (mouseenterListeners (elements w ! el)),
        mouseleaveListeners := Suc (mouseleaveListeners (elements w ! el)),
        keydownListeners := Suc (keydownListeners (elements w ! el))\<rparr>"
  by (simp add: initializeCard_def Let_def)

lemma nth_initializeCard_other:
  "el' \<noteq> el \<Longrightarrow> elements (initializeCard el w) ! el' = elements w ! el'"
  by (simp add: initializeCard_def Let_def)

lemma notificationLogs_initializeCard:
  "notificationLogs (initializeCard el w) =
     drop (Suc (length (notificationLogs w)) - 50)
       (notificationLogs w @
        [(getVariant (elements w ! el), titleText (elements w ! el), now w)])"
  by (simp add: initializeCard_def Let_def logNotification_def getVariant_def)

lemma init_Some_simps [simp]:
  "now (init (Some el) w) = now w"
  "events (init (Some el) w) = events w"
  "containerExists (init (Some el) w) = containerExists w"
  "containerChildren (init (Some el) w) = containerChildren w"
  "length (elements (init (Some el) w)) = length (elements w)"
  by (simp_all add: init_def)

lemma init_marks:
  "el < length (elements w) \<Longrightarrow>
   notificationInitialized (elements (init (Some el) w) ! el) = Some ''true''"
  by (simp add: init_def nth_initializeCard)

lemma init_idempotent:
  "el < length (elements w) \<Longrightarrow> init (Some el) (init (Some el) w) = init (Some el) w"
  using init_marks [of el w] by (simp add: init_def [of "Some el" "init (Some el) w"])

lemma init_twice_one_listener:
  assumes "el < length (elements w)"
    and "notificationInitialized (elements w ! el) \<noteq> Some ''true''"
    and "hasDismissButton (elements w ! el)"
  shows "clickListeners (elements (init (Some el) (init (Some el) w)) ! el) =
           Suc (clickListeners (elements w ! el))"
  using assms by (simp add: init_idempotent) (simp add: init_def nth_initializeCard)

lemma timers_init_fresh:
  "notificationInitialized (elements w ! el) \<noteq> Some ''true'' \<Longrightarrow> el < length (elements w) \<Longrightarrow>
   timers (init (Some el) w) =
     timers w
     @ (if getVariant (elements w ! el) = ''success'' \<and> autoDismiss (elements w ! el) \<noteq> Some ''false''
        then [(now w + 5000, DismissCard el)] else [])
     @ [(now w + 50, AnimateInTick el)]"
  by (simp add: init_def)

lemma nth_init_fresh:
  "notificationInitialized (elements w ! el) \<noteq> Some ''true'' \<Longrightarrow> el < length (elements w) \<Longrightarrow>
   elements (init (Some el) w) ! el =
     (elements w ! el)
       \<lparr>notificationInitialized := Some ''true'',
        tabindex := Some ''0'', opacity := ''0'', transform := ''translateX(100%)'',
        clickListeners := (if hasDismissButton (elements w ! el)
                           then Suc (clickListeners (elements w ! el))
                           else clickListeners (elements w ! el)),
        mouseenterListeners := Suc (mouseenterListeners (elements w ! el)),
        mouseleaveListeners := Suc (mouseleaveListeners (elements w ! el)),
        keydownListeners := Suc (keydownListeners (elements w ! el))\<rparr>"
  by (simp add: init_def nth_initializeCard)

subsection \<open>Creating a notification\<close>

lemma showCard_fst: "fst (showCard opts w) = length (elements w)"
  by (simp add: showCard_def Let_def)

lemma show_Some: "show (Some opts) w = (Inr (fst (showCard opts w)), snd (showCard opts w))"
  by (simp add: show_def split: prod.splits)

lemma snd_show_Some [simp]: "snd (show (Some opts) w) = snd (showCard opts w)"
  by (simp add: show_Some)

lemma fst_show_Some [simp]: "fst (show (Some opts) w) = Inr (length (elements w))"
  by (simp add: show_Some showCard_fst)

lemma showCard_simps [simp]:
  "now (snd (showCard opts w)) = now w"
  "events (snd (showCard opts w)) = events w"
  "containerExists (snd (showCard opts w))"
  "containerChildren (snd (showCard opts w)) =
     (if containerExists w then containerChildren w else []) @ [length (elements w)]"
  "length (elements (snd (showCard opts w))) = Suc (length (elements w))"
  by (simp_all add: showCard_def Let_def)


lemma showCard_parsedFrom:
  "parsedFrom (elements (snd (showCard opts w)) ! length (elements w)) =
     notificationMarkup (showConfig opts)"
  by (simp add: showCard_def Let_def firstElementChild_def)

lemma showCard_not_marked:
  "notificationInitialized (elements (snd (showCard opts w)) ! length (elements w)) = None"
  by (simp add: showCard_def Let_def nth_initializeCard firstElementChild_def)

lemma showCard_timers:
  "timers (snd (showCard opts w)) =
     timers w
     @ (if getVariant (firstElementChild (notificationMarkup (showConfig opts)) (showConfig opts)) = ''success''
        then [(now w + 5000, DismissCard (length (elements w)))] else [])
     @ [(now w + 50, AnimateInTick (length (elements w)))]
     @ (if 0 < duration (showConfig opts)
        then [(now w + nat (duration (showConfig opts)), DismissCard (length (elements w)))] else [])"
  by (simp add: showCard_def Let_def firstElementChild_def getVariant_def)

lemma showCard_new_element:
  "elements (snd (showCard opts w)) ! length (elements w) =
     (firstElementChild (notificationMarkup (showConfig opts)) (showConfig opts))
       \<lparr>parentNode := Some Container, tabindex := Some ''0'', opacity := ''0'',
        transform := ''translateX(100%)'',
        clickListeners := (if dismissible (showConfig opts) then 1 else 0),
        mouseenterListeners := 1, mouseleaveListeners := 1, keydownListeners := 1\<rparr>"
  by (simp add: showCard_def Let_def nth_initializeCard firstElementChild_def)

lemma showCard_old_element:
  "el < length (elements w) \<Longrightarrow> elements (snd (showCard opts w)) ! el = elements w ! el"
  by (simp add: showCard_def Let_def nth_initializeCard_other nth_append)

lemma showCard_elements:
  "elements (snd (showCard opts w)) =
     elements w @
     [(firstElementChild (notificationMarkup (showConfig opts)) (showConfig opts))
       \<lparr>parentNode := Some Container, tabindex := Some ''0'', opacity := ''0'',
        transform := ''translateX(100%)'',
        clickListeners := (if dismissible (showConfig opts) then 1 else 0),
        mouseenterListeners := 1, mouseleaveListeners := 1, keydownListeners := 1\<rparr>]"
proof (rule nth_equalityI)
  show "length (elements (snd (showCard opts w))) = length (elements w @ [(firstElementChild (notificationMarkup (showConfig opts)) (showConfig opts))
       \<lparr>parentNode := Some Container, tabindex := Some ''0'', opacity := ''0'',
        transform := ''translateX(100%)'',
        clickListeners := (if dismissible (showConfig opts) then 1 else 0),
        mouseenterListeners := 1, mouseleaveListeners := 1, keydownListeners := 1\<rparr>])"
    by simp
next
  fix i
  assume "i < length (elements (snd (showCard opts w)))"
  then have "i < length (elements w) \<or> i = length (elements w)"
    by auto
  then show "elements (snd (showCard opts w)) ! i = (elements w @ [(firstElementChild (notificationMarkup (showConfig opts)) (showConfig opts))
       \<lparr>parentNode := Some Container, tabindex := Some ''0'', opacity := ''0'',
        transform := ''translateX(100%)'',
        clickListeners := (if dismissible (showConfig opts) then 1 else 0),
        mouseenterListeners := 1, mouseleaveListeners := 1, keydownListeners := 1\<rparr>]) ! i"
    using showCard_new_element [of opts w] showCard_old_element [of i w opts]
    by (auto simp: nth_append)
qed

lemma showCard_notificationLogs:
  "notificationLogs (snd (showCard opts w)) =
     drop (Suc (length (notificationLogs w)) - 50)
       (notificationLogs w @
        [(getVariant (firstElementChild (notificationMarkup (showConfig opts)) (showConfig opts)),
          Some (decodeText (escapeHtml (title (showConfig opts)))), now w)])"
  by (simp add: showCard_def Let_def notificationLogs_initializeCard firstElementChild_def
        getVariant_def)

subsection \<open>Dismissing and the timers\<close>

lemma runTimers_idle: "timers w = [] \<Longrightarrow> runTimers d w = w\<lparr>now := max (now w) d\<rparr>"
  by (subst runTimers.simps) simp

lemma runTimers_early:
  "earliest (timers w) = Some (due, cb) \<Longrightarrow> d < due \<Longrightarrow> runTimers d w = w\<lparr>now := max (now w) d\<rparr>"
  by (subst runTimers.simps) simp

lemma runTimers_fire:
  "earliest (timers w) = Some (due, cb) \<Longrightarrow> due \<le> d \<Longrightarrow>
   runTimers d w =
     runTimers d (fireTimer cb (w\<lparr>now := max (now w) due, timers := remove1 (due, cb) (timers w)\<rparr>))"
  by (subst runTimers.simps) simp

lemma earliest_replicate: "earliest (replicate (Suc k) t) = Some t"
  by (induction k) (auto split: option.splits)

lemma clickDismiss_funpow:
  "hasDismissButton (elements w ! el) \<Longrightarrow>
   clickDismiss el w = (dismissCard el ^^ clickListeners (elements w ! el)) w"
  by (simp add: clickDismiss_def)

lemma keydown_Escape_funpow:
  "hasDismissButton (elements w ! el) \<Longrightarrow>
   keydown el ''Escape'' w = (dismissCard el ^^ keydownListeners (elements w ! el)) w"
  by (simp add: keydown_def)

lemma dismiss_funpow:
  "timers ((dismissCard el ^^ k) w) = timers w @ replicate k (now w + 300, RemoveCard el)
   \<and> events ((dismissCard el ^^ k) w) =
       events w @ replicate k (NotificationDismiss (getVariant (elements w ! el)) (titleText (elements w ! el)))
   \<and> now ((dismissCard el ^^ k) w) = now w
   \<and> length (elements ((dismissCard el ^^ k) w)) = length (elements w)
   \<and> getVariant (elements ((dismissCard el ^^ k) w) ! el) = getVariant (elements w ! el)
   \<and> titleText (elements ((dismissCard el ^^ k) w) ! el) = titleText (elements w ! el)
   \<and> parentNode (elements ((dismissCard el ^^ k) w) ! el) = parentNode (elements w ! el)
   \<and> containerChildren ((dismissCard el ^^ k) w) = containerChildren w"
proof (induction k)
  case 0
  then show ?case by simp
next
  case (Suc k)
  then show ?case
    by (simp add: replicate_append_same)
qed

lemma events_clickDismiss:
  "events (clickDismiss el w) =
     events w @
     (if hasDismissButton (elements w ! el)
      then replicate (clickListeners (elements w ! el))
             (NotificationDismiss (getVariant (elements w ! el)) (titleText (elements w ! el)))
      else [])"
  using dismiss_funpow [where el = el and k = "clickListeners (elements w ! el)" and w = w]
  by (simp add: clickDismiss_def)

lemma run_removals:
  assumes "timers w = replicate k (t, RemoveCard el)" and "t \<le> d"
  shows "events (runTimers d w) = events w @ replicate k (NotificationRemoved (getVariant (elements w ! el)))
         \<and> timers (runTimers d w) = []
         \<and> length (elements (runTimers d w)) = length (elements w)
         \<and> (0 < k \<and> el < length (elements w) \<longrightarrow> parentNode (elements (runTimers d w) ! el) = None)
         \<and> (0 < k \<longrightarrow> el \<notin> set (containerChildren (runTimers d w)))
         \<and> (parentNode (elements w ! el) = None \<longrightarrow> parentNode (elements (runTimers d w) ! el) = None)"
  using assms
proof (induction k arbitrary: w)
  case 0
  then show ?case by (simp add: runTimers_idle)
next
  case (Suc k)
  let ?w = "fireTimer (RemoveCard el)
              (w\<lparr>now := max (now w) t, timers := remove1 (t, RemoveCard el) (timers w)\<rparr>)"
  have e: "earliest (timers w) = Some (t, RemoveCard el)"
    using Suc.prems(1) earliest_replicate by metis
  have step: "runTimers d w = runTimers d ?w"
    using runTimers_fire [OF e Suc.prems(2)] .
  have tw: "timers ?w = replicate k (t, RemoveCard el)"
    using Suc.prems(1) by (simp add: fireTimer_def)
  note ih = Suc.IH [OF tw Suc.prems(2)]
  have gv: "getVariant (elements ?w ! el) = getVariant (elements w ! el)"
    by (simp add: fireTimer_def)
  have ev: "events ?w = events w @ [NotificationRemoved (getVariant (elements w ! el))]"
    by (simp add: fireTimer_def)
  have len: "length (elements ?w) = length (elements w)"
    by (simp add: fireTimer_def)
  have pn: "el < length (elements w) \<Longrightarrow> parentNode (elements ?w ! el) = None"
    by (simp add: fireTimer_def)
  have pn': "parentNode (elements w ! el) = None \<Longrightarrow> parentNode (elements ?w ! el) = None"
    by (simp add: fireTimer_def)
  have cc: "el \<notin> set (containerChildren ?w)"
    by (simp add: fireTimer_def)
  have cc': "el \<notin> set (containerChildren (runTimers d ?w))"
  proof (cases k)
    case 0
    then show ?thesis using tw cc by (simp add: runTimers_idle)
  next
    case (Suc k')
    then show ?thesis using ih by simp
  qed
  show ?case
    unfolding step
    using ih gv ev len pn pn' cc cc'
    by simp
qed

lemma run_after_dismiss:
  assumes "el < length (elements w)" and "timers w = []" and "now w + 300 \<le> d"
  shows "events (runTimers d (dismissCard el w)) =
           events w @ [NotificationDismiss (getVariant (elements w ! el)) (titleText (elements w ! el)),
                       NotificationRemoved (getVariant (elements w ! el))]
         \<and> parentNode (elements (runTimers d (dismissCard el w)) ! el) = None
         \<and> el \<notin> set (containerChildren (runTimers d (dismissCard el w)))
         \<and> timers (runTimers d (dismissCard el w)) = []"
proof -
  have "timers (dismissCard el w) = replicate (Suc 0) (now w + 300, RemoveCard el)"
    using assms(2) by simp
  then show ?thesis
    using run_removals [of "dismissCard el w" "Suc 0" "now w + 300" el d] assms(1,3)
    by simp
qed

lemma run_before_removal:
  assumes "timers w = []" and "d < now w + 300"
  shows "runTimers d (dismissCard el w) = (dismissCard el w)\<lparr>now := max (now w) d\<rparr>"
proof -
  have "earliest (timers (dismissCard el w)) = Some (now w + 300, RemoveCard el)"
    using assms(1) by simp
  then show ?thesis
    using runTimers_early [of "dismissCard el w" "now w + 300" "RemoveCard el" d] assms(2)
    by simp
qed

subsection \<open>The bridge\<close>

lemma fst_convertMessage: "fst (convertMessage engine b w) = b\<lparr>display := ''none''\<rparr>"
  by (simp add: convertMessage_def)

lemma convertDrupalMessages_Cons:
  "convertDrupalMessages engine (b # bs) w =
     (if ''messages'' \<in> set (classList b) \<and> ''convert-messages'' \<notin> set (dataOnce b)
      then (fst (convertMessage engine (b\<lparr>dataOnce := dataOnce b @ [''convert-messages'']\<rparr>) w)
              # fst (convertDrupalMessages engine bs
                       (snd (convertMessage engine
                               (b\<lparr>dataOnce := dataOnce b @ [''convert-messages'']\<rparr>) w))),
            snd (convertDrupalMessages engine bs
                   (snd (convertMessage engine
                           (b\<lparr>dataOnce := dataOnce b @ [''convert-messages'']\<rparr>) w))))
      else (b # fst (convertDrupalMessages engine bs w),
            snd (convertDrupalMessages engine bs w)))"
  by (simp split: prod.splits)

lemma convertDrupalMessages_once:
  "convertDrupalMessages engine (fst (convertDrupalMessages engine bs w)) w' =
     (fst (convertDrupalMessages engine bs w), w')"
proof (induction bs arbitrary: w w')
  case Nil
  then show ?case by simp
next
  case (Cons b bs)
  show ?case
    using Cons.IH
    by (simp add: convertDrupalMessages_Cons fst_convertMessage del: convertDrupalMessages.simps)
qed

subsection \<open>The markup at the interpolations\<close>

lemma markup_includes_icon:
  "str_includes (notificationMarkup c) (iconTag (iconText (icon c)))"
proof -
  have "notificationMarkup c =
      markupCardOpen c @ iconTag (iconText (icon c)) @
      (markupIconToTitle @ titleTag (escapeHtml (title c)) @ markupTitleToMessage c @
       messageDiv (message c) @ markupCardClose)"
    by (simp add: notificationMarkup_def)
  then show ?thesis
    by (simp only: str_includes_mid)
qed

lemma markup_includes_title:
  "str_includes (notificationMarkup c) (titleTag (escapeHtml (title c)))"
proof -
  have "notificationMarkup c =
      (markupCardOpen c @ iconTag (iconText (icon c)) @ markupIconToTitle) @
      titleTag (escapeHtml (title c)) @
      (markupTitleToMessage c @ messageDiv (message c) @ markupCardClose)"
    by (simp add: notificationMarkup_def)
  then show ?thesis
    by (simp only: str_includes_mid)
qed

lemma markup_includes_message:
  "str_includes (notificationMarkup c) (messageDiv (message c))"
proof -
  have "notificationMarkup c =
      (markupCardOpen c @ iconTag (iconText (icon c)) @ markupIconToTitle @
       titleTag (escapeHtml (title c)) @ markupTitleToMessage c) @
      messageDiv (message c) @ markupCardClose"
    by (simp add: notificationMarkup_def)
  then show ?thesis
    by (simp only: str_includes_mid)
qed

lemma showCard_titleText:
  "titleText (elements (snd (showCard opts w)) ! length (elements w)) =
     Some (parserText (title (showConfig opts)))"
  by (simp add: showCard_new_element firstElementChild_def decodeText_escapeHtml)

lemma showConfig_rawOptions:
  "showConfig rawOptions =
     \<lparr>variant = ''info'', title = ''a<b'', message = ''<i>m</i>'', dismissible = True,
      duration = 0, icon = IconName ''star<b>''\<rparr>"
  by (simp add: showConfig_def assign_def defaults_def noOptions_def rawOptions_def
        getDefaultIcon_def)

section \<open>The claims\<close>

text \<open>
  Claim C1, at an element made by \<open>show\<close>. \<open>show\<close> wires the new element without
  setting the marker, so a later \<open>init\<close> on the same element wires it once more: the
  dismiss button then has two click listeners (the element two key listeners and two
  hover listeners, and a second entrance animation is scheduled), and one click
  dispatches \<open>notificationDismiss\<close> twice.
\<close>

theorem show_then_init_wires_twice:
  "fst (show (Some noOptions) emptyPage) = Inr 0
   \<and> notificationInitialized (elements (snd (show (Some noOptions) emptyPage)) ! 0) = None
   \<and> clickListeners (elements (snd (show (Some noOptions) emptyPage)) ! 0) = 1
   \<and> clickListeners (elements (init (Some 0) (snd (show (Some noOptions) emptyPage))) ! 0) = 2
   \<and> keydownListeners (elements (init (Some 0) (snd (show (Some noOptions) emptyPage))) ! 0) = 2
   \<and> mouseenterListeners (elements (init (Some 0) (snd (show (Some noOptions) emptyPage))) ! 0) = 2
   \<and> timers (init (Some 0) (snd (show (Some noOptions) emptyPage))) =
       [(50, AnimateInTick 0), (50, AnimateInTick 0)]
   \<and> events (clickDismiss 0 (init (Some 0) (snd (show (Some noOptions) emptyPage)))) =
       [NotificationDismiss ''info'' (Some ''Notification''),
        NotificationDismiss ''info'' (Some ''Notification'')]"
proof -
  let ?w = "snd (showCard noOptions emptyPage)"
  let ?v = "init (Some 0) ?w"
  have el: "elements ?w ! 0 =
      (firstElementChild (notificationMarkup (showConfig noOptions)) (showConfig noOptions))
       \<lparr>parentNode := Some Container, tabindex := Some ''0'', opacity := ''0'',
        transform := ''translateX(100%)'', clickListeners := 1,
        mouseenterListeners := 1, mouseleaveListeners := 1, keydownListeners := 1\<rparr>"
    using showCard_new_element [of noOptions emptyPage]
    by (simp add: showConfig_noOptions)
  have mark: "notificationInitialized (elements ?w ! 0) \<noteq> Some ''true''"
    and mark': "notificationInitialized (elements ?w ! 0) = None"
    and btn: "hasDismissButton (elements ?w ! 0)"
    and cl: "clickListeners (elements ?w ! 0) = 1"
    by (simp_all add: el firstElementChild_def showConfig_noOptions)
  have tt: "titleText (elements ?w ! 0) = Some ''Notification''"
    using showCard_titleText [of noOptions emptyPage]
    by (simp add: showConfig_noOptions parserText_def)
  have gv: "getVariant (elements ?w ! 0) = ''info''"
    by (simp add: el getVariant_firstElementChild showConfig_noOptions)
  have len: "0 < length (elements ?w)"
    by simp
  have tw: "timers ?w = [(50, AnimateInTick 0)]"
    by (simp add: showCard_timers showConfig_noOptions getVariant_firstElementChild)
  have el2: "elements ?v ! 0 =
      (elements ?w ! 0)
       \<lparr>notificationInitialized := Some ''true'', tabindex := Some ''0'', opacity := ''0'',
        transform := ''translateX(100%)'', clickListeners := 2,
        mouseenterListeners := 2, mouseleaveListeners := 2, keydownListeners := 2\<rparr>"
    using nth_init_fresh [OF mark len] btn by (simp add: el)
  have tv: "timers ?v = [(50, AnimateInTick 0), (50, AnimateInTick 0)]"
    using timers_init_fresh [OF mark len] by (simp add: tw gv)
  have ev: "events (clickDismiss 0 ?v) =
       [NotificationDismiss ''info'' (Some ''Notification''),
        NotificationDismiss ''info'' (Some ''Notification'')]"
    by (simp add: events_clickDismiss el2 btn gv tt numeral_2_eq_2)
  show ?thesis
    using mark' cl tv ev by (simp add: el2)
qed

text \<open>
  Claim C2 as stated fails: two calls of \<open>dismissCard\<close> on the same element leave two
  removal timers, and after 300 ms \<open>notificationRemoved\<close> has been dispatched twice. And a
  success card that the user dismisses right after mounting is removed after 300 ms with
  its auto-dismiss timer still pending; when that timer fires at 5000 ms, both events are
  dispatched a second time.
\<close>

theorem second_dismiss_duplicates_removed_event:
  "count_list (events (runTimers 300 (dismissCard 0 (dismissCard 0 helloPage))))
       (NotificationRemoved ''info'') = 2
   \<and> parentNode (elements (runTimers 300 (clickDismiss 0 (init (Some 0) savedPage))) ! 0) = None
   \<and> events (runTimers 300 (clickDismiss 0 (init (Some 0) savedPage))) =
       [NotificationDismiss ''success'' (Some ''Saved''), NotificationRemoved ''success'']
   \<and> events (runTimers 6000 (clickDismiss 0 (init (Some 0) savedPage))) =
       [NotificationDismiss ''success'' (Some ''Saved''), NotificationRemoved ''success'',
        NotificationDismiss ''success'' (Some ''Saved''), NotificationRemoved ''success'']"
proof -
  have two: "dismissCard 0 (dismissCard 0 helloPage) = (dismissCard 0 ^^ 2) helloPage"
    by (simp add: numeral_2_eq_2)
  have hello: "timers helloPage = []" "events helloPage = []" "now helloPage = 0"
    "getVariant (elements helloPage ! 0) = ''info''"
    "titleText (elements helloPage ! 0) = Some ''Hello''"
    by (simp_all add: helloPage_def) (simp add: markupCard_def)
  have f: "timers ((dismissCard 0 ^^ 2) helloPage) = replicate 2 (300, RemoveCard 0)
      \<and> events ((dismissCard 0 ^^ 2) helloPage) = replicate 2 (NotificationDismiss ''info'' (Some ''Hello''))
      \<and> getVariant (elements ((dismissCard 0 ^^ 2) helloPage) ! 0) = ''info''"
    using dismiss_funpow [where el = 0 and k = 2 and w = helloPage] hello
    by simp
  have a: "events (runTimers 300 ((dismissCard 0 ^^ 2) helloPage)) =
      replicate 2 (NotificationDismiss ''info'' (Some ''Hello''))
      @ replicate 2 (NotificationRemoved ''info'')"
    using run_removals [of "(dismissCard 0 ^^ 2) helloPage" 2 300 0 300] f by simp
  have part1: "count_list (events (runTimers 300 (dismissCard 0 (dismissCard 0 helloPage))))
       (NotificationRemoved ''info'') = 2"
    unfolding two a by (simp add: numeral_2_eq_2)
  let ?v = "init (Some 0) savedPage"
  have saved: "timers savedPage = []" "events savedPage = []" "now savedPage = 0"
    "elements savedPage ! 0 =
       markupCard ''notification-card notification-card--success'' True (Some ''Saved'')"
    "length (elements savedPage) = 1"
    by (simp_all add: savedPage_def)
  have card: "notificationInitialized
        (markupCard ''notification-card notification-card--success'' True (Some ''Saved'')) = None"
    "autoDismiss (markupCard ''notification-card notification-card--success'' True (Some ''Saved'')) = None"
    "hasDismissButton (markupCard ''notification-card notification-card--success'' True (Some ''Saved''))"
    "clickListeners (markupCard ''notification-card notification-card--success'' True (Some ''Saved'')) = 0"
    "mouseenterListeners (markupCard ''notification-card notification-card--success'' True (Some ''Saved'')) = 0"
    "mouseleaveListeners (markupCard ''notification-card notification-card--success'' True (Some ''Saved'')) = 0"
    "keydownListeners (markupCard ''notification-card notification-card--success'' True (Some ''Saved'')) = 0"
    "titleText (markupCard ''notification-card notification-card--success'' True (Some ''Saved'')) = Some ''Saved''"
    by (simp_all add: markupCard_def)
  have fresh: "notificationInitialized (elements savedPage ! 0) \<noteq> Some ''true''"
    and len: "0 < length (elements savedPage)"
    by (simp_all add: saved card)
  have elv: "elements ?v ! 0 =
      (markupCard ''notification-card notification-card--success'' True (Some ''Saved''))
       \<lparr>notificationInitialized := Some ''true'', tabindex := Some ''0'', opacity := ''0'',
        transform := ''translateX(100%)'', clickListeners := 1, mouseenterListeners := 1,
        mouseleaveListeners := 1, keydownListeners := 1\<rparr>"
    using nth_init_fresh [OF fresh len] by (simp add: saved card)
  have tv: "timers ?v = [(5000, DismissCard 0), (50, AnimateInTick 0)]"
    using timers_init_fresh [OF fresh len] by (simp add: saved card)
  have btn: "hasDismissButton (elements ?v ! 0)" and cl: "clickListeners (elements ?v ! 0) = 1"
    and tt: "titleText (elements ?v ! 0) = Some ''Saved''"
    by (simp_all add: elv card)
  have gv: "getVariant (elements ?v ! 0) = ''success''"
    by (simp add: elv)
  let ?p = "dismissCard 0 ?v"
  have click: "clickDismiss 0 ?v = ?p"
    by (simp add: clickDismiss_def btn cl)
  have tp: "timers ?p = [(5000, DismissCard 0), (50, AnimateInTick 0), (300, RemoveCard 0)]"
    by (simp add: tv saved)
  have ep: "events ?p = [NotificationDismiss ''success'' (Some ''Saved'')]"
    by (simp add: gv tt saved)
  let ?w1 = "animateInTick 0 (?p\<lparr>now := 50, timers := [(5000, DismissCard 0), (300, RemoveCard 0)]\<rparr>)"
  let ?w2 = "removeCallback 0 (?w1\<lparr>now := 300, timers := [(5000, DismissCard 0)]\<rparr>)"
  have s1: "runTimers d ?p = runTimers d ?w1" if "50 \<le> d" for d
    using runTimers_fire [of ?p 50 "AnimateInTick 0" d] that by (simp add: tv saved)
  have s2: "runTimers d ?w1 = runTimers d ?w2" if "300 \<le> d" for d
    using runTimers_fire [of ?w1 300 "RemoveCard 0" d] that by simp
  have ew2: "events ?w2 = [NotificationDismiss ''success'' (Some ''Saved''), NotificationRemoved ''success'']"
    by (simp add: gv tt saved)
  have pw2: "parentNode (elements ?w2 ! 0) = None"
    by (simp add: saved)
  have gw2: "getVariant (elements ?w2 ! 0) = ''success''" and tw2: "titleText (elements ?w2 ! 0) = Some ''Saved''"
    by (simp_all add: saved gv tt)
  have stop: "runTimers 300 ?w2 = ?w2\<lparr>now := max (now ?w2) 300\<rparr>"
    using runTimers_early [of ?w2 5000 "DismissCard 0" 300] by simp
  have part2: "parentNode (elements (runTimers 300 ?p) ! 0) = None
      \<and> events (runTimers 300 ?p) =
          [NotificationDismiss ''success'' (Some ''Saved''), NotificationRemoved ''success'']"
    using s1 [of 300] s2 [of 300] stop pw2 ew2 by (simp del: dismissCard_simps removeCallback_simps nth_removeCallback nth_dismissCard animateInTick_simps nth_animateInTick)
  let ?w3 = "?w2\<lparr>now := 5000, timers := []\<rparr>"
  have s3: "runTimers 6000 ?w2 = runTimers 6000 (dismissCard 0 ?w3)"
    using runTimers_fire [of ?w2 5000 "DismissCard 0" 6000] by simp
  have fin: "events (runTimers 6000 (dismissCard 0 ?w3)) =
           events ?w3 @ [NotificationDismiss (getVariant (elements ?w3 ! 0)) (titleText (elements ?w3 ! 0)),
                       NotificationRemoved (getVariant (elements ?w3 ! 0))]
         \<and> parentNode (elements (runTimers 6000 (dismissCard 0 ?w3)) ! 0) = None
         \<and> 0 \<notin> set (containerChildren (runTimers 6000 (dismissCard 0 ?w3)))
         \<and> timers (runTimers 6000 (dismissCard 0 ?w3)) = []"
    by (rule run_after_dismiss) (simp_all add: saved)
  have part3: "events (runTimers 6000 ?p) =
       [NotificationDismiss ''success'' (Some ''Saved''), NotificationRemoved ''success'',
        NotificationDismiss ''success'' (Some ''Saved''), NotificationRemoved ''success'']"
    using s1 [of 6000] s2 [of 6000] s3 fin ew2 gw2 tw2
    by (simp del: dismissCard_simps removeCallback_simps nth_removeCallback nth_dismissCard animateInTick_simps nth_animateInTick)
  show ?thesis
    using part1 part2 part3 by (simp add: click)
qed

text \<open>
  Claim C2, as the code has it. \<open>dismissCard\<close> has no guard, and every trigger (the
  click listeners, the Escape key listeners, an auto-dismiss timer, a direct call) runs it.
  Each call dispatches its own \<open>notificationDismiss\<close> and schedules its own removal 300 ms
  later, and each removal leaves the element without a parent and dispatches its own
  \<open>notificationRemoved\<close>. On a page with no other timer pending, \<open>k\<close> calls followed by
  300 ms give \<open>k\<close> events of each kind, and the element is without a parent from the first
  removal on. A dismiss timer that fires on an element already removed dispatches both
  events once more.
\<close>

theorem repeated_dismiss_events:
  assumes "el < length (elements w)"
  shows "fireTimer (DismissCard el) w = dismissCard el w
         \<and> (hasDismissButton (elements w ! el) \<longrightarrow>
              clickDismiss el w = (dismissCard el ^^ clickListeners (elements w ! el)) w
              \<and> keydown el ''Escape'' w = (dismissCard el ^^ keydownListeners (elements w ! el)) w)
         \<and> events ((dismissCard el ^^ k) w) =
             events w @ replicate k (NotificationDismiss (getVariant (elements w ! el))
                                        (titleText (elements w ! el)))
         \<and> timers ((dismissCard el ^^ k) w) = timers w @ replicate k (now w + 300, RemoveCard el)
         \<and> events (fireTimer (RemoveCard el) w) =
             events w @ [NotificationRemoved (getVariant (elements w ! el))]
         \<and> parentNode (elements (fireTimer (RemoveCard el) w) ! el) = None
         \<and> (timers w = [] \<longrightarrow>
              events (runTimers (now w + 300) ((dismissCard el ^^ k) w)) =
                events w @ replicate k (NotificationDismiss (getVariant (elements w ! el))
                                           (titleText (elements w ! el)))
                         @ replicate k (NotificationRemoved (getVariant (elements w ! el)))
              \<and> timers (runTimers (now w + 300) ((dismissCard el ^^ k) w)) = [])
         \<and> (timers w = [] \<and> 0 < k \<longrightarrow>
              parentNode (elements (runTimers (now w + 300) ((dismissCard el ^^ k) w)) ! el) = None)
         \<and> (timers w = [] \<and> parentNode (elements w ! el) = None \<longrightarrow>
              events (runTimers (now w + 300) (fireTimer (DismissCard el) w)) =
                events w @ [NotificationDismiss (getVariant (elements w ! el)) (titleText (elements w ! el)),
                            NotificationRemoved (getVariant (elements w ! el))])"
proof -
  let ?w = "(dismissCard el ^^ k) w"
  note f = dismiss_funpow [where el = el and k = k and w = w]
  have run: "events (runTimers (now w + 300) ?w) =
               events ?w @ replicate k (NotificationRemoved (getVariant (elements ?w ! el)))
             \<and> timers (runTimers (now w + 300) ?w) = []
             \<and> (0 < k \<and> el < length (elements ?w) \<longrightarrow>
                  parentNode (elements (runTimers (now w + 300) ?w) ! el) = None)"
    if "timers w = []"
  proof -
    have tm: "timers ?w = replicate k (now w + 300, RemoveCard el)"
      using f that by simp
    show ?thesis
      using run_removals [OF tm, of "now w + 300"] by simp
  qed
  have one: "events (runTimers (now w + 300) (dismissCard el w)) =
                events w @ [NotificationDismiss (getVariant (elements w ! el)) (titleText (elements w ! el)),
                            NotificationRemoved (getVariant (elements w ! el))]"
    if "timers w = []"
    using run_after_dismiss [of el w "now w + 300"] assms that by simp
  show ?thesis
    using f run one assms
    by (simp add: clickDismiss_funpow keydown_Escape_funpow)
qed

theorem repeated_dismiss_events_witness:
  "events (runTimers 300 ((dismissCard 0 ^^ 3) helloPage)) =
     [NotificationDismiss ''info'' (Some ''Hello''), NotificationDismiss ''info'' (Some ''Hello''),
      NotificationDismiss ''info'' (Some ''Hello''),
      NotificationRemoved ''info'', NotificationRemoved ''info'', NotificationRemoved ''info'']
   \<and> parentNode (elements (runTimers 300 ((dismissCard 0 ^^ 3) helloPage)) ! 0) = None
   \<and> events (runTimers 300 (fireTimer (DismissCard 0) detachedPage)) =
       [NotificationDismiss ''info'' (Some ''Hello''), NotificationRemoved ''info'']"
  using repeated_dismiss_events [of 0 helloPage 3] repeated_dismiss_events [of 0 detachedPage 1]
  by (simp add: helloPage_def detachedPage_def markupCard_def getVariant_def numeral_3_eq_3)

text \<open>
  Claim C3, at the argument \<^verbatim>\<open>{variant: 'success', duration: 0}\<close>. The duration is 0 and
  \<open>show\<close> itself sets no timer, but mounting the success card has already scheduled a
  dismissal at 5000 ms: the card is dismissed then and gone at 5300 ms. (With
  \<^verbatim>\<open>{variant: 'info', duration: 3000}\<close> the only dismissal scheduled is the one at 3000 ms.)
\<close>

theorem show_success_duration_zero_schedules_dismiss:
  "fst (show (Some successZeroOptions) emptyPage) = Inr 0
   \<and> duration (showConfig successZeroOptions) = 0
   \<and> timers (snd (show (Some successZeroOptions) emptyPage)) =
       [(5000, DismissCard 0), (50, AnimateInTick 0)]
   \<and> events (runTimers 5300 (snd (show (Some successZeroOptions) emptyPage))) =
       [NotificationDismiss ''success'' (Some ''Notification''), NotificationRemoved ''success'']
   \<and> parentNode (elements (runTimers 5300 (snd (show (Some successZeroOptions) emptyPage))) ! 0) = None
   \<and> timers (snd (show (Some infoTimedOptions) emptyPage)) =
       [(50, AnimateInTick 0), (3000, DismissCard 0)]"
proof -
  let ?w = "snd (showCard successZeroOptions emptyPage)"
  have el: "elements ?w ! 0 =
      (firstElementChild (notificationMarkup (showConfig successZeroOptions)) (showConfig successZeroOptions))
       \<lparr>parentNode := Some Container, tabindex := Some ''0'', opacity := ''0'',
        transform := ''translateX(100%)'', clickListeners := 1,
        mouseenterListeners := 1, mouseleaveListeners := 1, keydownListeners := 1\<rparr>"
    using showCard_new_element [of successZeroOptions emptyPage]
    by (simp add: showConfig_successZeroOptions)
  have gv: "getVariant (elements ?w ! 0) = ''success''"
    by (simp add: el getVariant_firstElementChild showConfig_successZeroOptions)
  have tt: "titleText (elements ?w ! 0) = Some ''Notification''"
    using showCard_titleText [of successZeroOptions emptyPage]
    by (simp add: showConfig_successZeroOptions parserText_def)
  have tw: "timers ?w = [(5000, DismissCard 0), (50, AnimateInTick 0)]"
    by (simp add: showCard_timers showConfig_successZeroOptions getVariant_firstElementChild)
  let ?w1 = "animateInTick 0 (?w\<lparr>now := 50, timers := [(5000, DismissCard 0)]\<rparr>)"
  have s1: "runTimers 5300 ?w = runTimers 5300 ?w1"
    using runTimers_fire [of ?w 50 "AnimateInTick 0" 5300] by (simp add: tw)
  let ?w2 = "?w1\<lparr>now := 5000, timers := []\<rparr>"
  have s2: "runTimers 5300 ?w1 = runTimers 5300 (dismissCard 0 ?w2)"
    using runTimers_fire [of ?w1 5000 "DismissCard 0" 5300] by simp
  have fin: "events (runTimers 5300 (dismissCard 0 ?w2)) =
           events ?w2 @ [NotificationDismiss (getVariant (elements ?w2 ! 0)) (titleText (elements ?w2 ! 0)),
                       NotificationRemoved (getVariant (elements ?w2 ! 0))]
         \<and> parentNode (elements (runTimers 5300 (dismissCard 0 ?w2)) ! 0) = None
         \<and> 0 \<notin> set (containerChildren (runTimers 5300 (dismissCard 0 ?w2)))
         \<and> timers (runTimers 5300 (dismissCard 0 ?w2)) = []"
    by (rule run_after_dismiss) simp_all
  have "events (runTimers 5300 ?w) =
       [NotificationDismiss ''success'' (Some ''Notification''), NotificationRemoved ''success'']
       \<and> parentNode (elements (runTimers 5300 ?w) ! 0) = None"
    unfolding s1 s2 using fin by (simp add: gv tt)
  moreover have "timers (snd (showCard infoTimedOptions emptyPage)) =
       [(50, AnimateInTick 0), (3000, DismissCard 0)]"
    by (simp add: showCard_timers showConfig_infoTimedOptions getVariant_firstElementChild)
  ultimately show ?thesis
    using tw by (simp add: showConfig_successZeroOptions)
qed

text \<open>
  Claim C4. The markup that \<open>show\<close> parses the new element from holds the icon and the
  message exactly as given (the icon in the \<^verbatim>\<open>name\<close> attribute of the \<^verbatim>\<open>sl-icon\<close>, the
  message inside the message \<^verbatim>\<open>div\<close>) and the title escaped inside the \<^verbatim>\<open>h3\<close>. An
  escaped title holds no \<^verbatim>\<open><\<close> and no \<^verbatim>\<open>>\<close>, so no element comes out of it, and the text
  the parser reads from it is the title with its newlines normalised and U+0000 dropped:
  the title itself when it holds neither a carriage return nor U+0000. That text is the
  text of the new element's title node when neither the variant nor the icon holds a
  double quote (each stays inside its attribute, so the \<^verbatim>\<open>h3\<close> of the template is the
  first title node). For the title \<^verbatim>\<open><script>x</script>\<close> and the
  message \<^verbatim>\<open><b>ok</b>\<close> the markup holds the escaped title, no \<^verbatim>\<open><script>\<close> tag, the bold
  tag of the message untouched and the default icon by name, and the title node holds the
  title as literal text.
\<close>

theorem show_markup_escapes_title_only:
  "parsedFrom (elements (snd (show (Some opts) w)) ! length (elements w)) =
     notificationMarkup (showConfig opts)
   \<and> (opt_icon opts = Some i \<longrightarrow>
        str_includes (notificationMarkup (showConfig opts))
          (''<sl-icon name='' @ [CHR 0x22] @ i @ [CHR 0x22] @ ''></sl-icon>''))
   \<and> (opt_message opts = Some m \<longrightarrow>
        str_includes (notificationMarkup (showConfig opts))
          (''<div class='' @ [CHR 0x22] @ ''notification-message'' @ [CHR 0x22] @ ''>'' @
           ''\<newline>            '' @ m @ ''\<newline>          </div>''))
   \<and> (opt_title opts = Some t \<longrightarrow>
        str_includes (notificationMarkup (showConfig opts))
          (''<h3 class='' @ [CHR 0x22] @ ''notification-title'' @ [CHR 0x22] @ ''>'' @
           escapeHtml t @ ''</h3>''))
   \<and> (opt_title opts = Some t
        \<and> CHR 0x22 \<notin> set (variant (showConfig opts))
        \<and> CHR 0x22 \<notin> set (iconText (icon (showConfig opts))) \<longrightarrow>
        titleText (elements (snd (show (Some opts) w)) ! length (elements w)) =
          Some (parserText t))
   \<and> CHR ''<'' \<notin> set (escapeHtml t) \<and> CHR ''>'' \<notin> set (escapeHtml t)
   \<and> decodeText (escapeHtml t) = parserText t
   \<and> (CHR 0x0D \<notin> set t \<and> CHR 0x00 \<notin> set t \<longrightarrow> parserText t = t)
   \<and> escapeHtml ''<script>x</script>'' = ''&lt;script&gt;x&lt;/script&gt;''
   \<and> str_includes (notificationMarkup (showConfig scriptOptions))
         ''>&lt;script&gt;x&lt;/script&gt;</h3>''
   \<and> \<not> str_includes (notificationMarkup (showConfig scriptOptions)) ''<script>''
   \<and> str_includes (notificationMarkup (showConfig scriptOptions)) ''<b>ok</b>''
   \<and> str_includes (notificationMarkup (showConfig scriptOptions))
         (''<sl-icon name='' @ [CHR 0x22] @ ''info-circle'' @ [CHR 0x22] @ ''></sl-icon>'')
   \<and> titleText (elements (snd (show (Some scriptOptions) emptyPage)) ! 0) =
       Some ''<script>x</script>''"
proof -
  have a: "parsedFrom (elements (snd (show (Some opts) w)) ! length (elements w)) =
     notificationMarkup (showConfig opts)"
    by (simp add: showCard_parsedFrom)
  have ic: "str_includes (notificationMarkup (showConfig opts))
          (''<sl-icon name='' @ [CHR 0x22] @ i @ [CHR 0x22] @ ''></sl-icon>'')"
    if "opt_icon opts = Some i"
    using markup_includes_icon [of "showConfig opts"] that
    by (simp add: showConfig_fields iconText_def iconTag_def)
  have ms: "str_includes (notificationMarkup (showConfig opts))
          (''<div class='' @ [CHR 0x22] @ ''notification-message'' @ [CHR 0x22] @ ''>'' @
           ''\<newline>            '' @ m @ ''\<newline>          </div>'')"
    if "opt_message opts = Some m"
    using markup_includes_message [of "showConfig opts"] that
    by (simp add: showConfig_fields messageDiv_def)
  have ti: "str_includes (notificationMarkup (showConfig opts))
          (''<h3 class='' @ [CHR 0x22] @ ''notification-title'' @ [CHR 0x22] @ ''>'' @
           escapeHtml t @ ''</h3>'')
        \<and> titleText (elements (snd (show (Some opts) w)) ! length (elements w)) =
            Some (parserText t)"
    if "opt_title opts = Some t"
    using markup_includes_title [of "showConfig opts"] showCard_titleText [of opts w] that
    by (simp add: showConfig_fields titleTag_def)
  have d: "str_includes (notificationMarkup (showConfig scriptOptions))
         ''>&lt;script&gt;x&lt;/script&gt;</h3>''"
    unfolding showConfig_scriptOptions
    by (simp add: notificationMarkup_def markup_defs iconText_def)
  have e: "\<not> str_includes (notificationMarkup (showConfig scriptOptions)) ''<script>''"
    unfolding showConfig_scriptOptions
    by (simp add: notificationMarkup_def markup_defs iconText_def)
  have f: "str_includes (notificationMarkup (showConfig scriptOptions)) ''<b>ok</b>''"
    unfolding showConfig_scriptOptions
    by (simp add: notificationMarkup_def markup_defs iconText_def)
  have h: "str_includes (notificationMarkup (showConfig scriptOptions))
         (''<sl-icon name='' @ [CHR 0x22] @ ''info-circle'' @ [CHR 0x22] @ ''></sl-icon>'')"
    unfolding showConfig_scriptOptions
    by (simp add: notificationMarkup_def markup_defs iconText_def)
  have g: "titleText (elements (snd (show (Some scriptOptions) emptyPage)) ! 0) =
       Some ''<script>x</script>''"
    using showCard_titleText [of scriptOptions emptyPage]
    by (simp add: showConfig_scriptOptions parserText_def)
  show ?thesis
    using a ic ms ti d e f g h escapeHtml_no_angle [of t] decodeText_escapeHtml [of t]
      parserText_id [of t]
    by simp
qed

theorem show_markup_escapes_title_only_witness:
  "str_includes (notificationMarkup (showConfig rawOptions))
     (''<sl-icon name='' @ [CHR 0x22] @ ''star<b>'' @ [CHR 0x22] @ ''></sl-icon>'')
   \<and> str_includes (notificationMarkup (showConfig rawOptions))
       (''<div class='' @ [CHR 0x22] @ ''notification-message'' @ [CHR 0x22] @ ''>'' @
        ''\<newline>            <i>m</i>\<newline>          </div>'')
   \<and> str_includes (notificationMarkup (showConfig rawOptions))
       (''<h3 class='' @ [CHR 0x22] @ ''notification-title'' @ [CHR 0x22] @ ''>a&lt;b</h3>'')
   \<and> titleText (elements (snd (show (Some rawOptions) emptyPage)) ! 0) = Some ''a<b''
   \<and> parserText ''a<b'' = ''a<b''"
proof -
  have o: "opt_icon rawOptions = Some ''star<b>''" "opt_message rawOptions = Some ''<i>m</i>''"
    "opt_title rawOptions = Some ''a<b''"
    by (simp_all add: rawOptions_def noOptions_def)
  have r: "CHR 0x22 \<notin> set (variant (showConfig rawOptions))"
    "CHR 0x22 \<notin> set (iconText (icon (showConfig rawOptions)))"
    by (simp_all add: showConfig_rawOptions iconText_def)
  show ?thesis
    using show_markup_escapes_title_only
            [of rawOptions emptyPage "''star<b>''" "''<i>m</i>''" "''a<b''"]
    by (simp add: o r parserText_def)
qed



text \<open>
  Claim C6. \<open>dismissCard\<close> dispatches \<open>notificationDismiss\<close> with the element's variant
  and title while the document is still as it was before the call (its listeners find the
  element with its old style), leaves the element with the exit transition (fade and
  translate) and its parent, and schedules the removal 300 ms later. When the removal
  fires, \<open>notificationRemoved\<close> with the variant is dispatched on the document as the
  removal leaves it: its listeners find the element without a parent, and it is no child
  of the container. On an element that was already detached the removal changes nothing in
  the document and the event is dispatched all the same. On a page with no other timer
  pending the timeline is: before 300 ms have passed, only \<open>notificationDismiss\<close> has been
  dispatched and the element has its parent; from 300 ms on, \<open>notificationRemoved\<close> has
  followed and the element is gone.
\<close>

theorem dismiss_emits_then_removes:
  assumes "el < length (elements w)"
  shows "events (dismissCard el w) =
             events w @ [NotificationDismiss (getVariant (elements w ! el)) (titleText (elements w ! el))]
         \<and> observed (dismissCard el w) = observed w @ [elements w]
         \<and> opacity (elements (dismissCard el w) ! el) = ''0''
         \<and> transform (elements (dismissCard el w) ! el) = ''translateX(100%)''
         \<and> transition (elements (dismissCard el w) ! el) = ''all 0.3s ease-out''
         \<and> parentNode (elements (dismissCard el w) ! el) = parentNode (elements w ! el)
         \<and> timers (dismissCard el w) = timers w @ [(now w + 300, RemoveCard el)]
         \<and> events (fireTimer (RemoveCard el) w) =
             events w @ [NotificationRemoved (getVariant (elements w ! el))]
         \<and> observed (fireTimer (RemoveCard el) w) =
             observed w @ [elements (fireTimer (RemoveCard el) w)]
         \<and> parentNode (elements (fireTimer (RemoveCard el) w) ! el) = None
         \<and> el \<notin> set (containerChildren (fireTimer (RemoveCard el) w))
         \<and> (parentNode (elements w ! el) = None \<and> el \<notin> set (containerChildren w) \<longrightarrow>
               elements (fireTimer (RemoveCard el) w) = elements w
               \<and> containerChildren (fireTimer (RemoveCard el) w) = containerChildren w)
         \<and> (timers w = [] \<and> d < 300 \<longrightarrow>
               events (runTimers (now w + d) (dismissCard el w)) =
                 events w @ [NotificationDismiss (getVariant (elements w ! el)) (titleText (elements w ! el))]
               \<and> parentNode (elements (runTimers (now w + d) (dismissCard el w)) ! el) =
                   parentNode (elements w ! el))
         \<and> (timers w = [] \<and> 300 \<le> d \<longrightarrow>
               events (runTimers (now w + d) (dismissCard el w)) =
                 events w @ [NotificationDismiss (getVariant (elements w ! el)) (titleText (elements w ! el)),
                             NotificationRemoved (getVariant (elements w ! el))]
               \<and> observed (runTimers (now w + d) (dismissCard el w)) =
                   observed w @ [elements w, elements (runTimers (now w + d) (dismissCard el w))]
               \<and> parentNode (elements (runTimers (now w + d) (dismissCard el w)) ! el) = None
               \<and> el \<notin> set (containerChildren (runTimers (now w + d) (dismissCard el w))))"
proof -
  let ?w = "dismissCard el w"
  have early: "events (runTimers (now w + d) ?w) = events ?w
               \<and> parentNode (elements (runTimers (now w + d) ?w) ! el) = parentNode (elements w ! el)"
    if "timers w = []" and "d < 300"
  proof -
    have "runTimers (now w + d) ?w = ?w\<lparr>now := max (now w) (now w + d)\<rparr>"
      using run_before_removal [of w "now w + d" el] that by simp
    then show ?thesis
      using assms by simp
  qed
  have late: "events (runTimers (now w + d) ?w) =
                events w @ [NotificationDismiss (getVariant (elements w ! el)) (titleText (elements w ! el)),
                            NotificationRemoved (getVariant (elements w ! el))]
              \<and> observed (runTimers (now w + d) ?w) =
                  observed w @ [elements w, elements (runTimers (now w + d) ?w)]
              \<and> parentNode (elements (runTimers (now w + d) ?w) ! el) = None
              \<and> el \<notin> set (containerChildren (runTimers (now w + d) ?w))"
    if "timers w = []" and "300 \<le> d"
  proof -
    let ?v = "?w\<lparr>now := max (now ?w) (now w + 300), timers := []\<rparr>"
    have e: "earliest (timers ?w) = Some (now w + 300, RemoveCard el)"
      using that(1) by simp
    have "runTimers (now w + d) ?w = runTimers (now w + d) (fireTimer (RemoveCard el) ?v)"
      using runTimers_fire [OF e, of "now w + d"] that by simp
    also have "\<dots> = (removeCallback el ?v)\<lparr>now := max (now (removeCallback el ?v)) (now w + d)\<rparr>"
      by (simp add: runTimers_idle)
    finally have r: "runTimers (now w + d) ?w =
        (removeCallback el ?v)\<lparr>now := max (now (removeCallback el ?v)) (now w + d)\<rparr>" .
    show ?thesis
      unfolding r using assms
      by (simp add: removeCallback_def removeElement_def Let_def)
  qed
  have detached: "elements (removeCallback el w) = elements w
                  \<and> containerChildren (removeCallback el w) = containerChildren w"
    if "parentNode (elements w ! el) = None" and "el \<notin> set (containerChildren w)"
    using removeCallback_detached [OF that] by simp
  have obs: "observed (removeCallback el w) = observed w @ [elements (removeCallback el w)]"
    by (simp add: removeCallback_def removeElement_def Let_def)
  show ?thesis
    using early late detached obs assms
    by simp
qed

theorem dismiss_emits_then_removes_witness:
  "events (runTimers 299 (dismissCard 0 helloPage)) = [NotificationDismiss ''info'' (Some ''Hello'')]
   \<and> parentNode (elements (runTimers 299 (dismissCard 0 helloPage)) ! 0) = Some PageMarkup
   \<and> events (runTimers 300 (dismissCard 0 helloPage)) =
       [NotificationDismiss ''info'' (Some ''Hello''), NotificationRemoved ''info'']
   \<and> parentNode (elements (runTimers 300 (dismissCard 0 helloPage)) ! 0) = None
   \<and> opacity (hd (observed (runTimers 300 (dismissCard 0 helloPage))) ! 0) = ''''
   \<and> parentNode (hd (observed (runTimers 300 (dismissCard 0 helloPage))) ! 0) = Some PageMarkup
   \<and> parentNode (last (observed (runTimers 300 (dismissCard 0 helloPage))) ! 0) = None
   \<and> events (runTimers 300 (dismissCard 0 detachedPage)) =
       [NotificationDismiss ''info'' (Some ''Hello''), NotificationRemoved ''info'']
   \<and> elements (fireTimer (RemoveCard 0) detachedPage) = elements detachedPage"
proof -
  note h299 = dismiss_emits_then_removes [of 0 helloPage 299]
  note h300 = dismiss_emits_then_removes [of 0 helloPage 300]
  note d300 = dismiss_emits_then_removes [of 0 detachedPage 300]
  have hello: "elements helloPage =
      [markupCard ''notification-card notification-card--info'' True (Some ''Hello'')]"
    "timers helloPage = []" "events helloPage = []" "observed helloPage = []" "now helloPage = 0"
    by (simp_all add: helloPage_def)
  have det: "elements detachedPage =
      [(markupCard ''notification-card notification-card--info'' True (Some ''Hello''))
         \<lparr>parentNode := None\<rparr>]"
    "timers detachedPage = []" "events detachedPage = []" "now detachedPage = 0"
    "containerChildren detachedPage = []"
    by (simp_all add: detachedPage_def)
  have card: "titleText (markupCard ''notification-card notification-card--info'' True (Some ''Hello'')) = Some ''Hello''"
    "parentNode (markupCard ''notification-card notification-card--info'' True (Some ''Hello'')) = Some PageMarkup"
    "opacity (markupCard ''notification-card notification-card--info'' True (Some ''Hello'')) = ''''"
    by (simp_all add: markupCard_def)
  have p: "parentNode (elements (runTimers 300 (dismissCard 0 helloPage)) ! 0) = None"
    using h300 by (simp add: hello)
  show ?thesis
    using h299 h300 d300 p
    by (simp add: hello det card)
qed

text \<open>
  Claim C7, at the argument \<^verbatim>\<open>{variant: 'constructor'}\<close>. The variant is none of the four,
  yet the default icon is not \<open>info-circle\<close>: the lookup \<^verbatim>\<open>icons[variant]\<close> finds the
  member the table inherits, the fallback is skipped, and the markup names the printed
  function as the icon.
\<close>

theorem show_constructor_variant_icon:
  "fst (show (Some constructorOptions) emptyPage) = Inr 0
   \<and> ''constructor'' \<notin> {''info'', ''success'', ''warning'', ''danger''}
   \<and> icon (showConfig constructorOptions) = InheritedMember ''constructor''
   \<and> icon (showConfig constructorOptions) \<noteq> IconName ''info-circle''
   \<and> parsedFrom (elements (snd (show (Some constructorOptions) emptyPage)) ! 0) =
       notificationMarkup (showConfig constructorOptions)
   \<and> str_includes (notificationMarkup (showConfig constructorOptions))
        (''<sl-icon name='' @ [CHR 0x22] @ ''function Object() { [native code] }'' @ [CHR 0x22])
   \<and> \<not> str_includes (notificationMarkup (showConfig constructorOptions)) ''info-circle''"
proof -
  have cfg: "showConfig constructorOptions =
      \<lparr>variant = ''constructor'', title = ''Notification'', message = '''',
       dismissible = True, duration = 0, icon = InheritedMember ''constructor''\<rparr>"
    by (simp add: constructorOptions_def showConfig_def assign_def defaults_def noOptions_def
          getDefaultIcon_def icons_def objectPrototypeKeys_def)
  have a: "fst (show (Some constructorOptions) emptyPage) = Inr 0"
    by (simp add: show_Some showCard_fst emptyPage_def)
  have b: "parsedFrom (elements (snd (show (Some constructorOptions) emptyPage)) ! 0) =
       notificationMarkup (showConfig constructorOptions)"
    using showCard_parsedFrom [of constructorOptions emptyPage]
    by (simp add: show_Some emptyPage_def)
  have c: "str_includes (notificationMarkup (showConfig constructorOptions))
        (''<sl-icon name='' @ [CHR 0x22] @ ''function Object() { [native code] }'' @ [CHR 0x22])"
    unfolding cfg
    by (simp add: notificationMarkup_def markup_defs iconText_def)
  have d: "\<not> str_includes (notificationMarkup (showConfig constructorOptions)) ''info-circle''"
    unfolding cfg
    by (simp add: notificationMarkup_def markup_defs iconText_def)
  show ?thesis
    using a b c d by (simp add: cfg)
qed

text \<open>
  Claim C8 as stated fails in two places. A status block whose title element is there but
  empty gets the title \<open>Notification\<close>, not the element's (empty) text. And when the
  component is not loaded, the block is hidden all the same but \<open>show\<close> is not called:
  the page gets no element and no timer.
\<close>

theorem bridge_empty_title_and_absent_engine:
  "''messages--status'' \<in> set (classList emptyTitleBlock)
   \<and> messagesTitle emptyTitleBlock = Some ''''
   \<and> opt_title (messageOptions emptyTitleBlock) = Some ''Notification''
   \<and> convertMessage False statusBlock emptyPage = (statusBlock\<lparr>display := ''none''\<rparr>, emptyPage)
   \<and> elements (snd (convertMessage False statusBlock emptyPage)) = []
   \<and> timers (snd (convertMessage False statusBlock emptyPage)) = []
   \<and> length (elements (snd (convertMessage True statusBlock emptyPage))) = 1"
  by (simp add: emptyTitleBlock_def messageOptions_def Let_def convertMessage_def)

text \<open>
  Claim C8, as the code has it. For a status-message block the bridge derives: the
  variant \<open>danger\<close> for \<^verbatim>\<open>messages--error\<close>, else \<open>warning\<close> for \<^verbatim>\<open>messages--warning\<close>, else
  \<open>success\<close> for \<^verbatim>\<open>messages--status\<close>, else \<open>info\<close>; the title text, or \<open>Notification\<close>
  when there is no title element or its text is empty; the markup of the content element,
  or the block's own when it has none; \<open>dismissible\<close> true; the duration 5000 exactly when
  the variant is \<open>success\<close>, else 0; no icon. The block's \<^verbatim>\<open>display\<close> becomes \<open>none\<close>
  in every case; \<open>show\<close> is called with these options, and returns the new element, when
  the component is loaded, and nothing is created when it is not. Each block of class
  \<^verbatim>\<open>messages\<close> is converted once: a second pass over converted blocks changes nothing.
\<close>

theorem convertDrupalMessages_config:
  "messageVariant b =
     (if ''messages--error'' \<in> set (classList b) then ''danger''
      else if ''messages--warning'' \<in> set (classList b) then ''warning''
      else if ''messages--status'' \<in> set (classList b) then ''success''
      else ''info'')
   \<and> opt_variant (messageOptions b) = Some (messageVariant b)
   \<and> opt_title (messageOptions b) =
       Some (case messagesTitle b of
               None \<Rightarrow> ''Notification''
             | Some t \<Rightarrow> if t = '''' then ''Notification'' else t)
   \<and> opt_message (messageOptions b) =
       Some (case messagesContent b of Some h \<Rightarrow> h | None \<Rightarrow> innerHTML b)
   \<and> opt_dismissible (messageOptions b) = Some True
   \<and> opt_duration (messageOptions b) = Some (if messageVariant b = ''success'' then 5000 else 0)
   \<and> (opt_duration (messageOptions b) = Some 5000 \<longleftrightarrow> messageVariant b = ''success'')
   \<and> opt_icon (messageOptions b) = None
   \<and> convertMessage True b w =
       (b\<lparr>display := ''none''\<rparr>, snd (show (Some (messageOptions b)) w))
   \<and> fst (show (Some (messageOptions b)) w) = Inr (length (elements w))
   \<and> convertMessage False b w = (b\<lparr>display := ''none''\<rparr>, w)
   \<and> convertDrupalMessages engine [b] w =
       (if ''messages'' \<in> set (classList b) \<and> ''convert-messages'' \<notin> set (dataOnce b)
        then ([fst (convertMessage engine (b\<lparr>dataOnce := dataOnce b @ [''convert-messages'']\<rparr>) w)],
              snd (convertMessage engine (b\<lparr>dataOnce := dataOnce b @ [''convert-messages'']\<rparr>) w))
        else ([b], w))
   \<and> convertDrupalMessages engine (fst (convertDrupalMessages engine bs w)) w' =
       (fst (convertDrupalMessages engine bs w), w')"
proof -
  have v: "messageVariant b =
     (if ''messages--error'' \<in> set (classList b) then ''danger''
      else if ''messages--warning'' \<in> set (classList b) then ''warning''
      else if ''messages--status'' \<in> set (classList b) then ''success''
      else ''info'')"
    by (simp add: messageVariant_def Let_def)
  have o: "opt_variant (messageOptions b) = Some (messageVariant b)"
    "opt_title (messageOptions b) =
       Some (case messagesTitle b of
               None \<Rightarrow> ''Notification''
             | Some t \<Rightarrow> if t = '''' then ''Notification'' else t)"
    "opt_message (messageOptions b) =
       Some (case messagesContent b of Some h \<Rightarrow> h | None \<Rightarrow> innerHTML b)"
    "opt_dismissible (messageOptions b) = Some True"
    "opt_duration (messageOptions b) = Some (if messageVariant b = ''success'' then 5000 else 0)"
    "opt_icon (messageOptions b) = None"
    by (simp_all add: messageOptions_def Let_def)
  have c: "convertMessage True b w =
       (b\<lparr>display := ''none''\<rparr>, snd (show (Some (messageOptions b)) w))"
    "convertMessage False b w = (b\<lparr>display := ''none''\<rparr>, w)"
    by (simp_all add: convertMessage_def)
  have one: "convertDrupalMessages engine [b] w =
       (if ''messages'' \<in> set (classList b) \<and> ''convert-messages'' \<notin> set (dataOnce b)
        then ([fst (convertMessage engine (b\<lparr>dataOnce := dataOnce b @ [''convert-messages'']\<rparr>) w)],
              snd (convertMessage engine (b\<lparr>dataOnce := dataOnce b @ [''convert-messages'']\<rparr>) w))
        else ([b], w))"
    by (simp split: prod.splits)
  show ?thesis
    using v o c one convertDrupalMessages_once [of engine bs w w']
    by (simp del: convertDrupalMessages.simps snd_show_Some)
qed

theorem convertDrupalMessages_config_witness:
  "opt_variant (messageOptions statusBlock) = Some ''success''
   \<and> opt_title (messageOptions statusBlock) = Some ''Status message''
   \<and> opt_message (messageOptions statusBlock) = Some ''<p>Saved.</p>''
   \<and> opt_duration (messageOptions statusBlock) = Some 5000
   \<and> opt_variant (messageOptions errorBlock) = Some ''danger''
   \<and> opt_title (messageOptions errorBlock) = Some ''Notification''
   \<and> opt_message (messageOptions errorBlock) = Some ''Access denied.''
   \<and> opt_duration (messageOptions errorBlock) = Some 0
   \<and> display (fst (convertMessage True statusBlock emptyPage)) = ''none''
   \<and> length (elements (snd (convertMessage True statusBlock emptyPage))) = 1"
  using convertDrupalMessages_config [of statusBlock emptyPage True "[]" emptyPage]
        convertDrupalMessages_config [of errorBlock emptyPage True "[]" emptyPage]
  by (simp add: statusBlock_def errorBlock_def)

text \<open>
  Claim C9, at an element of class
  \<^verbatim>\<open>notification-card notification-card--successful\<close>. None of its class names is a
  variant marker, yet \<open>getVariant\<close> yields \<open>success\<close>: the source tests the class string
  with \<^verbatim>\<open>String.includes\<close>, and the success marker occurs inside the longer class name.
  Mounting such an element schedules the auto-dismiss meant for success cards.
\<close>

theorem getVariant_matches_inside_longer_class:
  "className successfulCard = ''notification-card notification-card--successful''
   \<and> classTokens (className successfulCard) =
       [''notification-card'', ''notification-card--successful'']
   \<and> ''notification-card--success'' \<notin> set (classTokens (className successfulCard))
   \<and> ''notification-card--warning'' \<notin> set (classTokens (className successfulCard))
   \<and> ''notification-card--danger'' \<notin> set (classTokens (className successfulCard))
   \<and> getVariant successfulCard = ''success''
   \<and> timers (init (Some 0) (pageWith [successfulCard])) =
       [(5000, DismissCard 0), (50, AnimateInTick 0)]"
proof -
  have c: "className successfulCard = ''notification-card notification-card--successful''"
    "notificationInitialized successfulCard = None" "autoDismiss successfulCard = None"
    by (simp_all add: successfulCard_def markupCard_def)
  have t: "classTokens ''notification-card notification-card--successful'' =
       [''notification-card'', ''notification-card--successful'']"
    by (simp add: classTokens_def isSpace_def)
  have g: "getVariant successfulCard = ''success''"
    by (simp add: getVariant_def c)
  have i: "timers (init (Some 0) (pageWith [successfulCard])) =
       [(5000, DismissCard 0), (50, AnimateInTick 0)]"
    using timers_init_fresh [of "pageWith [successfulCard]" 0]
    by (simp add: c g)
  show ?thesis
    using g i by (simp add: c t)
qed


end
